theory Spec2Isabelle
  imports Main
begin

section \<open>Tensors, errors and the runtime's layers\<close>

text \<open>
  The network of \<^verbatim>\<open>model/pyconvsegnet.py\<close> is embedded at the level of tensor shapes.
  A four-dimensional tensor (batch, channels, height, width) is represented by its
  shape; the floating-point entries are not part of the model. Every exception of the
  Python code is a value of \<open>error\<close>, and a function that may raise returns
  \<open>error + 'a\<close> with \<open>Inl\<close> for the exception.
\<close>

datatype tensor = Tensor (batch: nat) (chans: nat) (height: nat) (width: nat)

datatype error =
    AssertionError | ValueError | RuntimeError | IndexError | TypeError
  | AttributeError | UnboundLocalError | ZeroDivisionError

definition ebind :: "error + 'a \<Rightarrow> ('a \<Rightarrow> error + 'b) \<Rightarrow> error + 'b" where
  "ebind r f = (case r of Inl e \<Rightarrow> Inl e | Inr a \<Rightarrow> f a)"

text \<open>Python's \<^verbatim>\<open>xs[i]\<close> for a non-negative index: out of range raises.\<close>

definition py_index :: "'a list \<Rightarrow> nat \<Rightarrow> error + 'a" where
  "py_index xs i = (if i < length xs then Inr (xs ! i) else Inl IndexError)"

subsection \<open>torch.nn.Conv2d\<close>

record conv2d =
  in_channels :: nat
  out_channels :: nat
  kernel_size :: nat
  stride :: nat
  padding :: nat
  dilation :: nat
  groups :: nat
  bias :: bool

text \<open>
  The constructor of the runtime's convolution checks the group count against both
  channel counts and raises \<^verbatim>\<open>ValueError\<close> otherwise; it has no other check on the
  numbers used here.
\<close>

definition Conv2d :: "nat \<Rightarrow> nat \<Rightarrow> nat \<Rightarrow> nat \<Rightarrow> nat \<Rightarrow> nat \<Rightarrow> nat \<Rightarrow> bool \<Rightarrow> error + conv2d" where
  "Conv2d cin cout k s p d g b =
     (if g = 0 then Inl ValueError
      else if cin mod g \<noteq> 0 then Inl ValueError
      else if cout mod g \<noteq> 0 then Inl ValueError
      else Inr \<lparr>in_channels = cin, out_channels = cout, kernel_size = k, stride = s,
                padding = p, dilation = d, groups = g, bias = b\<rparr>)"

text \<open>
  Output extent of a convolution along one axis, as the runtime documents it:
  \<open>\<lfloor>(n + 2p - d(k - 1) - 1) / s\<rfloor> + 1\<close>. It is computed over \<open>int\<close>, because the
  numerator is negative when the padded input is smaller than the dilated kernel; the
  runtime raises in that case. It also raises for a stride, a dilation or a kernel size
  of zero and for an input that is empty along the axis.
\<close>

definition conv_extent :: "conv2d \<Rightarrow> nat \<Rightarrow> error + nat" where
  "conv_extent c n =
     (let span = int (dilation c) * (int (kernel_size c) - 1) + 1;
          padded = int n + 2 * int (padding c)
      in if stride c = 0 \<or> dilation c = 0 \<or> kernel_size c = 0 \<or> n = 0 then Inl RuntimeError
         else if padded < span then Inl RuntimeError
         else Inr (nat ((padded - span) div int (stride c) + 1)))"

text \<open>
  The forward computation of a convolution checks its weight and its input before it
  computes anything. The weight has \<^verbatim>\<open>out_channels\<close> rows and must have at least
  \<^verbatim>\<open>groups\<close> of them: a convolution constructed with no output channel raises here,
  not in its constructor. The input must have \<^verbatim>\<open>in_channels\<close> channels. An input
  without channels, given to a convolution constructed for no input channel, yields a
  result without channels, whatever \<^verbatim>\<open>out_channels\<close> is.
\<close>

definition conv2d_forward :: "conv2d \<Rightarrow> tensor \<Rightarrow> error + tensor" where
  "conv2d_forward c x =
     (if out_channels c < groups c then Inl RuntimeError
      else if chans x \<noteq> in_channels c then Inl RuntimeError
      else ebind (conv_extent c (height x)) (\<lambda>h.
           ebind (conv_extent c (width x)) (\<lambda>w.
           Inr (Tensor (batch x) (if chans x = 0 then 0 else out_channels c) h w))))"

subsection \<open>torch.cat along the channel axis\<close>

text \<open>
  Concatenation along dimension 1 needs at least one tensor, and all tensors must agree
  in batch, height and width. This is the shape of the result.
\<close>

fun cat1 :: "tensor list \<Rightarrow> error + tensor" where
  "cat1 [] = Inl RuntimeError"
| "cat1 (t # ts) =
     (if \<forall>u \<in> set ts. batch u = batch t \<and> height u = height t \<and> width u = width t
      then Inr (Tensor (batch t) (sum_list (map chans (t # ts))) (height t) (width t))
      else Inl RuntimeError)"

text \<open>
  Along the channel axis the result holds its arguments one after the other, in the
  order of the list: the channels of the first argument come first, those of the next
  one follow. A shape alone does not show this order. Where it matters, in the two
  pyramidal layers, each tensor to concatenate is paired with the layer that computed
  it, and the result is the shape together with one block per argument, in channel
  order: the layer, the first channel of its block, and the number of its channels.
\<close>

datatype 'a concat = Concat (joined: tensor) (blocks: "('a \<times> nat \<times> nat) list")

definition cat_blocks :: "('a \<times> tensor) list \<Rightarrow> ('a \<times> nat \<times> nat) list" where
  "cat_blocks ps =
     map (\<lambda>i. (fst (ps ! i), sum_list (map (chans \<circ> snd) (take i ps)), chans (snd (ps ! i))))
       [0..<length ps]"

definition cat1_of :: "('a \<times> tensor) list \<Rightarrow> error + 'a concat" where
  "cat1_of ps = ebind (cat1 (map snd ps)) (\<lambda>y. Inr (Concat y (cat_blocks ps)))"

section \<open>PyConv2d\<close>

record pyconv2d =
  pyconv_levels :: "conv2d list"

text \<open>
  The loop of the constructor, \<^verbatim>\<open>for i in range(len(pyconv_kernels))\<close>, builds one
  convolution per level with \<^verbatim>\<open>padding = pyconv_kernels[i] // 2\<close>. It runs after the
  assertion that the three lists have one length, so it is a recursion over the three
  lists in step; the first convolution that fails to construct ends it.
\<close>

fun build_levels ::
  "nat \<Rightarrow> nat list \<Rightarrow> nat list \<Rightarrow> nat list \<Rightarrow> nat \<Rightarrow> nat \<Rightarrow> bool \<Rightarrow> error + conv2d list" where
  "build_levels cin (oc # ocs) (k # ks) (g # gs) s d b =
     ebind (Conv2d cin oc k s (k div 2) d g b) (\<lambda>c.
     ebind (build_levels cin ocs ks gs s d b) (\<lambda>cs. Inr (c # cs)))"
| "build_levels cin ocs ks gs s d b = Inr []"

definition PyConv2d_init ::
  "nat \<Rightarrow> nat list \<Rightarrow> nat list \<Rightarrow> nat list \<Rightarrow> nat \<Rightarrow> nat \<Rightarrow> bool \<Rightarrow> error + pyconv2d" where
  "PyConv2d_init cin ocs pyconv_kernels pyconv_groups s d b =
     (if \<not> (length ocs = length pyconv_kernels \<and> length pyconv_kernels = length pyconv_groups)
      then Inl AssertionError
      else ebind (build_levels cin ocs pyconv_kernels pyconv_groups s d b) (\<lambda>cs.
           Inr \<lparr>pyconv_levels = cs\<rparr>))"

text \<open>
  The loop of \<^verbatim>\<open>forward\<close>: apply every level to the same input, in list order, and
  append the result to \<^verbatim>\<open>out\<close>; each entry is kept with the level that computed it.
  The list is then concatenated along the channel axis.
\<close>

fun apply_levels :: "conv2d list \<Rightarrow> tensor \<Rightarrow> error + (conv2d \<times> tensor) list" where
  "apply_levels [] x = Inr []"
| "apply_levels (c # cs) x =
     ebind (conv2d_forward c x) (\<lambda>y.
     ebind (apply_levels cs x) (\<lambda>ys. Inr ((c, y) # ys)))"

definition PyConv2d_forward :: "pyconv2d \<Rightarrow> tensor \<Rightarrow> error + conv2d concat" where
  "PyConv2d_forward m x = ebind (apply_levels (pyconv_levels m) x) cat1_of"

section \<open>PyConv4\<close>

record pyconv4 =
  conv2_1 :: conv2d
  conv2_2 :: conv2d
  conv2_3 :: conv2d
  conv2_4 :: conv2d

definition PyConv4_init :: "nat \<Rightarrow> nat \<Rightarrow> nat list \<Rightarrow> nat \<Rightarrow> nat list \<Rightarrow> error + pyconv4" where
  "PyConv4_init inplans planes pyconv_kernels s pyconv_groups =
     ebind (py_index pyconv_kernels 0) (\<lambda>k0.
     ebind (py_index pyconv_groups 0) (\<lambda>g0.
     ebind (Conv2d inplans (planes div 4) k0 s (k0 div 2) 1 g0 False) (\<lambda>c1.
     ebind (py_index pyconv_kernels 1) (\<lambda>k1.
     ebind (py_index pyconv_groups 1) (\<lambda>g1.
     ebind (Conv2d inplans (planes div 4) k1 s (k1 div 2) 1 g1 False) (\<lambda>c2.
     ebind (py_index pyconv_kernels 2) (\<lambda>k2.
     ebind (py_index pyconv_groups 2) (\<lambda>g2.
     ebind (Conv2d inplans (planes div 4) k2 s (k2 div 2) 1 g2 False) (\<lambda>c3.
     ebind (py_index pyconv_kernels 3) (\<lambda>k3.
     ebind (py_index pyconv_groups 3) (\<lambda>g3.
     ebind (Conv2d inplans (planes div 4) k3 s (k3 div 2) 1 g3 False) (\<lambda>c4.
     Inr \<lparr>conv2_1 = c1, conv2_2 = c2, conv2_3 = c3, conv2_4 = c4\<rparr>))))))))))))"

text \<open>The defaults of the constructor's signature.\<close>

definition default_kernels :: "nat list" where
  "default_kernels = [3, 5, 7, 9]"

definition default_groups :: "nat list" where
  "default_groups = [1, 4, 8, 16]"

text \<open>
  \<^verbatim>\<open>forward\<close> applies the four convolutions to the same input, from \<^verbatim>\<open>conv2_1\<close> to
  \<^verbatim>\<open>conv2_4\<close>, and concatenates the tuple of the four results along the channel axis.
\<close>

definition PyConv4_forward :: "pyconv4 \<Rightarrow> tensor \<Rightarrow> error + conv2d concat" where
  "PyConv4_forward m x =
     ebind (conv2d_forward (conv2_1 m) x) (\<lambda>y1.
     ebind (conv2d_forward (conv2_2 m) x) (\<lambda>y2.
     ebind (conv2d_forward (conv2_3 m) x) (\<lambda>y3.
     ebind (conv2d_forward (conv2_4 m) x) (\<lambda>y4.
     cat1_of [(conv2_1 m, y1), (conv2_2 m, y2), (conv2_3 m, y3), (conv2_4 m, y4)]))))"

section \<open>The other layers of the runtime\<close>

text \<open>
  The members of an \<^verbatim>\<open>nn.Sequential\<close>. Normalisation is the runtime's
  \<^verbatim>\<open>BatchNorm2d\<close>, the default of the \<^verbatim>\<open>BatchNorm\<close> argument; it carries the channel
  count it was built for. \<^verbatim>\<open>ReLU\<close> and \<^verbatim>\<open>Dropout2d\<close> keep the shape; the dropout
  probability is a floating-point number and is left out.
\<close>

datatype layer =
    AdaptiveAvgPool2d nat
  | Conv conv2d
  | BatchNorm nat
  | ReLU
  | Dropout2d
  | PyConv pyconv4

text \<open>
  Adaptive average pooling to a \<open>bins \<times> bins\<close> grid rejects an input with an empty
  non-batch dimension. Batch normalisation in training mode rejects an input with a
  single value per channel, and in both modes an input whose channel count differs from
  its own.
\<close>

fun layer_forward :: "bool \<Rightarrow> layer \<Rightarrow> tensor \<Rightarrow> error + tensor" where
  "layer_forward tr (AdaptiveAvgPool2d bins) x =
     (if chans x = 0 \<or> height x = 0 \<or> width x = 0 then Inl RuntimeError
      else Inr (Tensor (batch x) (chans x) bins bins))"
| "layer_forward tr (Conv c) x = conv2d_forward c x"
| "layer_forward tr (BatchNorm n) x =
     (if tr \<and> batch x * height x * width x = 1 then Inl ValueError
      else if chans x \<noteq> n then Inl RuntimeError
      else Inr x)"
| "layer_forward tr ReLU x = Inr x"
| "layer_forward tr Dropout2d x = Inr x"
| "layer_forward tr (PyConv m) x = ebind (PyConv4_forward m x) (\<lambda>y. Inr (joined y))"

fun sequential_forward :: "bool \<Rightarrow> layer list \<Rightarrow> tensor \<Rightarrow> error + tensor" where
  "sequential_forward tr [] x = Inr x"
| "sequential_forward tr (l # ls) x = ebind (layer_forward tr l x) (sequential_forward tr ls)"

text \<open>
  \<^verbatim>\<open>F.interpolate(x, size, mode='bilinear', align_corners=True)\<close>: the result has the
  requested height and width; empty inputs and empty targets are rejected.
\<close>

definition interpolate :: "tensor \<Rightarrow> nat \<times> nat \<Rightarrow> error + tensor" where
  "interpolate x sz =
     (if chans x = 0 \<or> height x = 0 \<or> width x = 0 \<or> fst sz = 0 \<or> snd sz = 0
      then Inl RuntimeError
      else Inr (Tensor (batch x) (chans x) (fst sz) (snd sz)))"

section \<open>GlobalPyConvBlock\<close>

record globalpyconvblock =
  global_features :: "layer list"

definition GlobalPyConvBlock_init :: "nat \<Rightarrow> nat \<Rightarrow> nat \<Rightarrow> error + globalpyconvblock" where
  "GlobalPyConvBlock_init in_dim reduction_dim bins =
     ebind (Conv2d in_dim reduction_dim 1 1 0 1 1 False) (\<lambda>c1.
     ebind (PyConv4_init reduction_dim reduction_dim default_kernels 1 default_groups) (\<lambda>pc.
     ebind (Conv2d reduction_dim reduction_dim 1 1 0 1 1 False) (\<lambda>c2.
     Inr \<lparr>global_features =
            [AdaptiveAvgPool2d bins,
             Conv c1, BatchNorm reduction_dim, ReLU,
             PyConv pc, BatchNorm reduction_dim, ReLU,
             Conv c2, BatchNorm reduction_dim, ReLU]\<rparr>)))"

definition GlobalPyConvBlock_forward :: "bool \<Rightarrow> globalpyconvblock \<Rightarrow> tensor \<Rightarrow> error + tensor" where
  "GlobalPyConvBlock_forward tr m x =
     ebind (sequential_forward tr (global_features m) x) (\<lambda>y.
     interpolate y (height x, width x))"

section \<open>LocalPyConvBlock, MergeLocalGlobal and PyConvHead\<close>

record localpyconvblock =
  local_layers :: "layer list"

text \<open>
  The first argument evaluated by the constructor is \<^verbatim>\<open>inplanes // reduction1\<close>, which
  raises for a reduction of zero.
\<close>

definition LocalPyConvBlock_init :: "nat \<Rightarrow> nat \<Rightarrow> nat \<Rightarrow> error + localpyconvblock" where
  "LocalPyConvBlock_init inplanes planes reduction1 =
     (if reduction1 = 0 then Inl ZeroDivisionError
      else
     ebind (Conv2d inplanes (inplanes div reduction1) 1 1 0 1 1 False) (\<lambda>c1.
     ebind (PyConv4_init (inplanes div reduction1) (inplanes div reduction1)
              default_kernels 1 default_groups) (\<lambda>pc.
     ebind (Conv2d (inplanes div reduction1) planes 1 1 0 1 1 False) (\<lambda>c2.
     Inr \<lparr>local_layers =
            [Conv c1, BatchNorm (inplanes div reduction1), ReLU,
             PyConv pc, BatchNorm (inplanes div reduction1), ReLU,
             Conv c2, BatchNorm planes, ReLU]\<rparr>))))"

definition LocalPyConvBlock_forward :: "bool \<Rightarrow> localpyconvblock \<Rightarrow> tensor \<Rightarrow> error + tensor" where
  "LocalPyConvBlock_forward tr m x = sequential_forward tr (local_layers m) x"

record mergelocalglobal =
  merge_features :: "layer list"

definition MergeLocalGlobal_init :: "nat \<Rightarrow> nat \<Rightarrow> error + mergelocalglobal" where
  "MergeLocalGlobal_init inplanes planes =
     ebind (Conv2d inplanes planes 3 1 1 1 1 False) (\<lambda>c.
     Inr \<lparr>merge_features = [Conv c, BatchNorm planes, ReLU]\<rparr>)"

definition MergeLocalGlobal_forward ::
  "bool \<Rightarrow> mergelocalglobal \<Rightarrow> tensor \<Rightarrow> tensor \<Rightarrow> error + tensor" where
  "MergeLocalGlobal_forward tr m local_c global_c =
     ebind (cat1 [local_c, global_c]) (sequential_forward tr (merge_features m))"

record pyconvhead =
  local_context :: localpyconvblock
  global_context :: globalpyconvblock
  merge_context :: mergelocalglobal

definition PyConvHead_init :: "nat \<Rightarrow> nat \<Rightarrow> error + pyconvhead" where
  "PyConvHead_init inplanes planes =
     (let out_size_local_context = 512; out_size_global_context = 512
      in ebind (LocalPyConvBlock_init inplanes out_size_local_context 4) (\<lambda>lc.
         ebind (GlobalPyConvBlock_init inplanes out_size_global_context 9) (\<lambda>gc.
         ebind (MergeLocalGlobal_init (out_size_local_context + out_size_global_context) planes)
           (\<lambda>mc.
         Inr \<lparr>local_context = lc, global_context = gc, merge_context = mc\<rparr>))))"

definition PyConvHead_forward :: "bool \<Rightarrow> pyconvhead \<Rightarrow> tensor \<Rightarrow> error + tensor" where
  "PyConvHead_forward tr m x =
     ebind (LocalPyConvBlock_forward tr (local_context m) x) (\<lambda>lc.
     ebind (GlobalPyConvBlock_forward tr (global_context m) x) (\<lambda>gc.
     MergeLocalGlobal_forward tr (merge_context m) lc gc))"

section \<open>PyConvSegNet\<close>

subsection \<open>Labels, losses and the criterion\<close>

text \<open>
  A label tensor has the shape (batch, height, width); the prediction map returned in
  training mode has the same kind of shape. A loss is a floating-point scalar; the model
  keeps it symbolic: the value a criterion computed from given logits and labels, or
  such a value multiplied by zero.
\<close>

datatype labels = Labels nat nat nat

datatype loss = LossOf tensor labels | MulZero loss

text \<open>
  The default criterion, \<^verbatim>\<open>nn.CrossEntropyLoss(ignore_index=255)\<close>, at the level of
  shapes: it needs a label tensor (\<open>None\<close> is Python's \<^verbatim>\<open>None\<close>, the default of
  \<^verbatim>\<open>y\<close>) whose batch and spatial extents are those of the logits.
\<close>

fun CrossEntropyLoss :: "tensor \<Rightarrow> labels option \<Rightarrow> error + loss" where
  "CrossEntropyLoss x None = Inl TypeError"
| "CrossEntropyLoss x (Some (Labels n h w)) =
     (if n \<noteq> batch x then Inl ValueError
      else if h \<noteq> height x \<or> w \<noteq> width x then Inl RuntimeError
      else Inr (LossOf x (Labels n h w)))"

text \<open>\<^verbatim>\<open>x.max(1)[1]\<close>: the index of the largest entry along the channel axis.\<close>

definition argmax1 :: "tensor \<Rightarrow> error + labels" where
  "argmax1 x =
     (if chans x = 0 then Inl IndexError else Inr (Labels (batch x) (height x) (width x)))"

subsection \<open>The backbone\<close>

text \<open>
  \<^verbatim>\<open>build_backbone_layers\<close> is imported from \<^verbatim>\<open>model.build_backbone_layers\<close>, which is not
  among the sources. It is a parameter of the constructor here: given the backbone name,
  the depth, the pretrained flag and the output stride it returns five stages or raises.
  A stage maps the training flag and a tensor to a tensor, or raises.
\<close>

type_synonym stage = "bool \<Rightarrow> tensor \<Rightarrow> error + tensor"

record backbone =
  stage0 :: stage
  stage1 :: stage
  stage2 :: stage
  stage3 :: stage
  stage4 :: stage

type_synonym backbone_builder = "string \<Rightarrow> nat \<Rightarrow> bool \<Rightarrow> nat \<Rightarrow> error + backbone"

subsection \<open>The model object\<close>

text \<open>
  The attributes of an instance. \<open>training\<close> is the flag of \<^verbatim>\<open>nn.Module\<close>, which the
  base constructor sets to true and \<^verbatim>\<open>eval()\<close> and \<^verbatim>\<open>train()\<close> switch.
  \<open>merge_with_stages\<close> is the attribute that \<^verbatim>\<open>forward\<close> reads in training mode:
  \<open>None\<close> says that the instance has no such attribute, \<open>Some b\<close> that it was assigned
  the truth value \<open>b\<close>.
\<close>

record pyconvsegnet =
  zoom_factor :: nat
  criterion :: "tensor \<Rightarrow> labels option \<Rightarrow> error + loss"
  layer0 :: stage
  layer1 :: stage
  layer2 :: stage
  layer3 :: stage
  layer4 :: stage
  pyconvhead :: pyconvhead
  aux :: "layer list"
  cls :: "layer list"
  training :: bool
  merge_with_stages :: "bool option"

definition PyConvSegNet_init ::
  "backbone_builder \<Rightarrow> nat \<Rightarrow> nat \<Rightarrow> nat \<Rightarrow> (tensor \<Rightarrow> labels option \<Rightarrow> error + loss)
     \<Rightarrow> bool \<Rightarrow> nat \<Rightarrow> string \<Rightarrow> error + pyconvsegnet" where
  "PyConvSegNet_init build_backbone_layers layers classes zf crit pretrained
       backbone_output_stride backbone_net =
     (if layers \<notin> set [50, 101, 152, 200] then Inl AssertionError
      else if \<not> classes > 1 then Inl AssertionError
      else if zf \<notin> set [1, 2, 4, 8] then Inl AssertionError
      else
        ebind (build_backbone_layers backbone_net layers pretrained backbone_output_stride) (\<lambda>bb.
        let backbone_output_maps = 2048; out_merge_all = 256 in
        ebind (PyConvHead_init backbone_output_maps out_merge_all) (\<lambda>hd.
        ebind (Conv2d 1024 256 3 1 1 1 1 False) (\<lambda>a1.
        ebind (Conv2d 256 classes 1 1 0 1 1 True) (\<lambda>a2.
        ebind (Conv2d out_merge_all classes 1 1 0 1 1 True) (\<lambda>c.
        Inr \<lparr>zoom_factor = zf, criterion = crit,
             layer0 = stage0 bb, layer1 = stage1 bb, layer2 = stage2 bb,
             layer3 = stage3 bb, layer4 = stage4 bb,
             pyconvhead = hd,
             aux = [Conv a1, BatchNorm 256, ReLU, Dropout2d, Conv a2],
             cls = [Dropout2d, Conv c],
             training = True,
             merge_with_stages = None\<rparr>))))))"

text \<open>\<^verbatim>\<open>model.eval()\<close> and \<^verbatim>\<open>model.train()\<close>.\<close>

definition eval_mode :: "pyconvsegnet \<Rightarrow> pyconvsegnet" where
  "eval_mode m = m\<lparr>training := False\<rparr>"

definition train_mode :: "pyconvsegnet \<Rightarrow> pyconvsegnet" where
  "train_mode m = m\<lparr>training := True\<rparr>"

subsection \<open>The forward computation, with a log of the calls it makes\<close>

text \<open>
  To say which layers a call of \<^verbatim>\<open>forward\<close> executes, the model returns, next to the
  result, the list of the calls made, in order. A call is logged when it starts, so a
  layer that raises is in the log.
\<close>

datatype event =
    Layer0 | Layer1 | Layer2 | Layer3 | Layer4
  | Head | Cls
  | UpsampleLogits nat nat
  | MainCriterion
  | ReadMergeWithStages
  | AuxHead
  | UpsampleAux nat nat
  | AuxCriterion
  | Argmax

type_synonym 'a run = "event list \<times> (error + 'a)"

definition ret :: "'a \<Rightarrow> 'a run" where
  "ret a = ([], Inr a)"

definition raise :: "error \<Rightarrow> 'a run" where
  "raise e = ([], Inl e)"

definition call :: "event \<Rightarrow> error + 'a \<Rightarrow> 'a run" where
  "call ev r = ([ev], r)"

definition rbind :: "'a run \<Rightarrow> ('a \<Rightarrow> 'b run) \<Rightarrow> 'b run" where
  "rbind r f =
     (case snd r of
        Inl e \<Rightarrow> (fst r, Inl e)
      | Inr a \<Rightarrow> (fst r @ fst (f a), snd (f a)))"

datatype outcome = Logits tensor | Training labels loss loss

text \<open>
  The target extent \<^verbatim>\<open>int((n - 1) / 8 * zoom_factor + 1)\<close>. The source divides in
  floating point; it does so after the assertion that \<open>n - 1\<close> is a multiple of 8, where
  the quotient is the exact integer \<open>(n - 1) div 8\<close> (for every extent below \<open>2^53\<close>).
\<close>

definition target_extent :: "nat \<Rightarrow> nat \<Rightarrow> nat" where
  "target_extent n zf = (n - 1) div 8 * zf + 1"

text \<open>
  In the training branch the local variable \<^verbatim>\<open>aux_loss\<close> is an option: \<open>None\<close> while
  no assignment to it has run. Reading it unassigned in the \<^verbatim>\<open>return\<close> statement raises
  \<^verbatim>\<open>UnboundLocalError\<close>, after \<^verbatim>\<open>x.max(1)[1]\<close> has been evaluated.
\<close>

definition PyConvSegNet_forward :: "pyconvsegnet \<Rightarrow> tensor \<Rightarrow> labels option \<Rightarrow> outcome run" where
  "PyConvSegNet_forward m x y =
     (if \<not> ((int (height x) - 1) mod 8 = 0 \<and> (int (width x) - 1) mod 8 = 0)
      then raise AssertionError
      else
        let h = target_extent (height x) (zoom_factor m);
            w = target_extent (width x) (zoom_factor m)
        in
        rbind (call Layer0 (layer0 m (training m) x)) (\<lambda>x0.
        rbind (call Layer1 (layer1 m (training m) x0)) (\<lambda>x1.
        rbind (call Layer2 (layer2 m (training m) x1)) (\<lambda>x2.
        rbind (call Layer3 (layer3 m (training m) x2)) (\<lambda>out_stage3.
        rbind (call Layer4 (layer4 m (training m) out_stage3)) (\<lambda>x4.
        rbind (call Head (PyConvHead_forward (training m) (pyconvhead m) x4)) (\<lambda>x5.
        rbind (call Cls (sequential_forward (training m) (cls m) x5)) (\<lambda>x6.
        rbind (if zoom_factor m \<noteq> 1
               then call (UpsampleLogits h w) (interpolate x6 (h, w))
               else ret x6) (\<lambda>x7.
        if training m then
          rbind (call MainCriterion (criterion m x7 y)) (\<lambda>main_loss.
          rbind (call ReadMergeWithStages
                   (case merge_with_stages m of None \<Rightarrow> Inl AttributeError | Some b \<Rightarrow> Inr b))
            (\<lambda>flag.
          rbind (if \<not> flag then
                   rbind (call AuxHead (sequential_forward (training m) (aux m) out_stage3))
                     (\<lambda>a.
                   if zoom_factor m \<noteq> 1 then
                     rbind (call (UpsampleAux h w) (interpolate a (h, w))) (\<lambda>a'.
                     rbind (call AuxCriterion (criterion m a' y)) (\<lambda>l.
                     ret (Some l)))
                   else ret None)
                 else ret (Some (MulZero main_loss))) (\<lambda>aux_loss.
          rbind (call Argmax (argmax1 x7)) (\<lambda>pred.
          case aux_loss of
            None \<Rightarrow> raise UnboundLocalError
          | Some l \<Rightarrow> ret (Training pred main_loss l)))))
        else ret (Logits x7))))))))))"

subsection \<open>A backbone to run the model on\<close>

text \<open>
  Modelled from the spec: \<^verbatim>\<open>build_backbone_layers\<close> is missing from the sources. Its
  contract is five sequential stages that map an image to a feature map with 2048
  channels at the requested output stride, the fourth stage giving the 1024 channels
  that the auxiliary head consumes. The sample below has output stride 8: the stem
  divides the extent by four, the second residual stage by two.
\<close>

definition sample_stage :: "nat \<Rightarrow> nat \<Rightarrow> nat \<Rightarrow> stage" where
  "sample_stage cin cout s tr x =
     (if chans x \<noteq> cin \<or> height x = 0 \<or> width x = 0 then Inl RuntimeError
      else Inr (Tensor (batch x) cout ((height x - 1) div s + 1) ((width x - 1) div s + 1)))"

definition sample_backbone :: backbone where
  "sample_backbone =
     \<lparr>stage0 = sample_stage 3 128 4, stage1 = sample_stage 128 256 1,
      stage2 = sample_stage 256 512 2, stage3 = sample_stage 512 1024 1,
      stage4 = sample_stage 1024 2048 1\<rparr>"

definition sample_builder :: backbone_builder where
  "sample_builder backbone_net layers pretrained backbone_output_stride = Inr sample_backbone"

section \<open>Properties\<close>

subsection \<open>Sequencing and convolutions\<close>

lemma ebind_Inl [simp]: "ebind (Inl e) f = Inl e"
  by (simp add: ebind_def)

lemma ebind_Inr [simp]: "ebind (Inr a) f = f a"
  by (simp add: ebind_def)

lemma ebind_eq_Inr:
  "ebind r f = Inr b \<longleftrightarrow> (\<exists>a. r = Inr a \<and> f a = Inr b)"
  by (cases r) simp_all

lemma conv_extent_same:
  assumes "stride c = 1" "dilation c = 1" "odd (kernel_size c)"
    and "padding c = kernel_size c div 2" "0 < n"
  shows "conv_extent c n = Inr n"
proof -
  from assms(3) obtain j where j: "kernel_size c = 2 * j + 1"
    by (auto elim: oddE)
  with assms show ?thesis
    by (simp add: conv_extent_def Let_def)
qed

lemma conv2d_forward_same:
  assumes "stride c = 1" "dilation c = 1" "odd (kernel_size c)"
    and "padding c = kernel_size c div 2" "groups c \<le> out_channels c"
    and "chans x = in_channels c" "0 < chans x" "0 < height x" "0 < width x"
  shows "conv2d_forward c x = Inr (Tensor (batch x) (out_channels c) (height x) (width x))"
  using assms by (simp add: conv2d_forward_def conv_extent_same)

lemma build_levels_props:
  assumes "length ocs = length ks" "length ks = length gs"
    and "\<forall>i < length gs. 0 < gs ! i \<and> cin mod gs ! i = 0
           \<and> 0 < ocs ! i \<and> ocs ! i mod gs ! i = 0"
  shows "\<exists>cs. build_levels cin ocs ks gs s d b = Inr cs
           \<and> map out_channels cs = ocs \<and> map kernel_size cs = ks \<and> map groups cs = gs
           \<and> (\<forall>c \<in> set cs. in_channels c = cin \<and> stride c = s \<and> dilation c = d
                 \<and> padding c = kernel_size c div 2 \<and> bias c = b
                 \<and> groups c \<le> out_channels c)"
  using assms
proof (induction cin ocs ks gs s d b rule: build_levels.induct)
  case (1 cin oc ocs k ks g gs s d b)
  from "1.prems"(3) have hd: "0 < g \<and> cin mod g = 0 \<and> 0 < oc \<and> oc mod g = 0"
    by (auto dest: spec [of _ 0])
  then have le: "g \<le> oc"
    by (auto intro: dvd_imp_le)
  have tl: "\<forall>i < length gs. 0 < gs ! i \<and> cin mod gs ! i = 0
              \<and> 0 < ocs ! i \<and> ocs ! i mod gs ! i = 0"
  proof (intro allI impI)
    fix i assume "i < length gs"
    then have "Suc i < length (g # gs)" by simp
    with "1.prems"(3) show "0 < gs ! i \<and> cin mod gs ! i = 0
              \<and> 0 < ocs ! i \<and> ocs ! i mod gs ! i = 0"
      by (metis nth_Cons_Suc)
  qed
  have c: "Conv2d cin oc k s (k div 2) d g b = Inr \<lparr>in_channels = cin, out_channels = oc,
             kernel_size = k, stride = s, padding = k div 2, dilation = d, groups = g, bias = b\<rparr>"
    using hd by (simp add: Conv2d_def)
  from "1.prems"(1,2) have len: "length ocs = length ks" "length ks = length gs"
    by simp_all
  from "1.IH" [OF len tl] obtain cs where cs: "build_levels cin ocs ks gs s d b = Inr cs"
      "map out_channels cs = ocs" "map kernel_size cs = ks" "map groups cs = gs"
      "\<forall>c \<in> set cs. in_channels c = cin \<and> stride c = s \<and> dilation c = d
                 \<and> padding c = kernel_size c div 2 \<and> bias c = b
                 \<and> groups c \<le> out_channels c"
    by blast
  show ?case
    using cs le by (simp add: c)
qed simp_all

lemma apply_levels_same:
  assumes "\<forall>c \<in> set cs. stride c = 1 \<and> dilation c = 1 \<and> odd (kernel_size c)
             \<and> padding c = kernel_size c div 2 \<and> groups c \<le> out_channels c
             \<and> in_channels c = chans x"
    and "0 < chans x" "0 < height x" "0 < width x"
  shows "apply_levels cs x =
           Inr (map (\<lambda>c. (c, Tensor (batch x) (out_channels c) (height x) (width x))) cs)"
  using assms by (induction cs) (simp_all add: conv2d_forward_same)

lemma cat1_uniform:
  assumes "ocs \<noteq> []"
  shows "cat1 (map (\<lambda>oc. Tensor n oc h w) ocs) = Inr (Tensor n (sum_list ocs) h w)"
  using assms by (cases ocs) (auto simp: comp_def)

lemma cat_blocks_levels:
  "cat_blocks (map (\<lambda>c. (c, Tensor n (f c) h w)) cs) =
     map (\<lambda>i. (cs ! i, sum_list (map f (take i cs)), f (cs ! i))) [0..<length cs]"
  by (auto simp: cat_blocks_def take_map comp_def)

lemma cat1_of_levels:
  assumes "cs \<noteq> []"
  shows "cat1_of (map (\<lambda>c. (c, Tensor n (f c) h w)) cs) =
           Inr (Concat (Tensor n (sum_list (map f cs)) h w)
                  (map (\<lambda>i. (cs ! i, sum_list (map f (take i cs)), f (cs ! i)))
                     [0..<length cs]))"
proof -
  have "map snd (map (\<lambda>c. (c, Tensor n (f c) h w)) cs) =
          map (\<lambda>oc. Tensor n oc h w) (map f cs)"
    by (simp add: comp_def)
  moreover have "cat1 (map (\<lambda>oc. Tensor n oc h w) (map f cs)) =
          Inr (Tensor n (sum_list (map f cs)) h w)"
    using assms by (intro cat1_uniform) simp
  ultimately show ?thesis
    by (simp only: cat1_of_def cat_blocks_levels ebind_Inr)
qed


lemma cat1_of_Inr:
  assumes "cat1_of ps = Inr y"
  shows "cat1 (map snd ps) = Inr (joined y)" "blocks y = cat_blocks ps"
  using assms by (auto simp: cat1_of_def ebind_eq_Inr)

subsection \<open>PyConv2d\<close>

text \<open>
  Claim C8. A \<^verbatim>\<open>PyConv2d\<close> whose three lists \<^verbatim>\<open>out_channels\<close>, \<^verbatim>\<open>pyconv_kernels\<close> and
  \<^verbatim>\<open>pyconv_groups\<close> do not all have the same length is rejected by the constructor
  itself, with the assertion's error, for every other argument; no object exists on
  which \<^verbatim>\<open>forward\<close> could be called.
\<close>

theorem PyConv2d_init_mismatch:
  assumes "\<not> (length ocs = length ks \<and> length ks = length gs)"
  shows "PyConv2d_init cin ocs ks gs s d b = Inl AssertionError"
  using assms by (simp add: PyConv2d_init_def)

theorem PyConv2d_init_mismatch_witness:
  "length [32, 32 :: nat] \<noteq> length [3, 5, 7 :: nat]
   \<and> PyConv2d_init 64 [32, 32] [3, 5, 7] [1, 4] 1 1 False = Inl AssertionError"
  using PyConv2d_init_mismatch [of "[32, 32]" "[3, 5, 7]" "[1, 4]" 64 1 1 False] by simp

text \<open>
  Claim C7 says that every \<^verbatim>\<open>PyConv2d\<close> with stride 1 and odd kernels keeps the height
  and width of its input. The constructor also takes a dilation and hands it to every
  level, while the padding stays \<^verbatim>\<open>kernel // 2\<close>: with dilation 2 the two-level layer
  below, on the 56 by 56 input of the docstring, returns a 54 by 54 map.
\<close>

theorem PyConv2d_dilation_counterexample:
  "PyConv2d_init 64 [32, 32] [3, 3] [1, 4] 1 2 False =
     Inr \<lparr>pyconv_levels =
       [\<lparr>in_channels = 64, out_channels = 32, kernel_size = 3, stride = 1, padding = 1,
          dilation = 2, groups = 1, bias = False\<rparr>,
        \<lparr>in_channels = 64, out_channels = 32, kernel_size = 3, stride = 1, padding = 1,
          dilation = 2, groups = 4, bias = False\<rparr>]\<rparr>
   \<and> PyConv2d_forward
       \<lparr>pyconv_levels =
       [\<lparr>in_channels = 64, out_channels = 32, kernel_size = 3, stride = 1, padding = 1,
          dilation = 2, groups = 1, bias = False\<rparr>,
        \<lparr>in_channels = 64, out_channels = 32, kernel_size = 3, stride = 1, padding = 1,
          dilation = 2, groups = 4, bias = False\<rparr>]\<rparr> (Tensor 4 64 56 56)
     = Inr (Concat (Tensor 4 64 54 54)
        [(\<lparr>in_channels = 64, out_channels = 32, kernel_size = 3, stride = 1, padding = 1,
            dilation = 2, groups = 1, bias = False\<rparr>, 0, 32),
         (\<lparr>in_channels = 64, out_channels = 32, kernel_size = 3, stride = 1, padding = 1,
            dilation = 2, groups = 4, bias = False\<rparr>, 32, 32)])"
  by (simp add: PyConv2d_init_def Conv2d_def PyConv2d_forward_def conv2d_forward_def
      conv_extent_def Let_def cat1_of_def cat_blocks_def)

text \<open>
  Claim C7, amended. Take lists of out-channel counts, kernels and group counts of one
  length \<open>N \<ge> 1\<close>, with odd kernels, positive out-channel counts, each group count
  positive and dividing both the input channel count and its level's out-channel count
  (the runtime's condition for a grouped convolution), and take stride 1 and dilation 1.
  Then the constructor succeeds; its levels carry the three lists in list order, each
  with padding \<^verbatim>\<open>kernel // 2\<close>. On every input with \<open>C_in > 0\<close> channels and positive
  height and width, every level returns a tensor of the input's batch, height and
  width with its own out-channel count, and \<^verbatim>\<open>forward\<close> returns their concatenation in
  list order: the result has the input's height and width and the sum of the
  out-channel counts as channels, and for \<open>i = 0, \<dots>, N - 1\<close> its \<open>i\<close>-th block is
  the output of level \<open>i\<close>, starts at the channel \<open>out_channels\<^sub>0 + \<dots> + out_channels\<^bsub>i-1\<^esub>\<close>
  and has \<open>out_channels\<^sub>i\<close> channels.
\<close>

theorem PyConv2d_forward_shape:
  assumes "length ocs = length ks" "length ks = length gs" "ocs \<noteq> []"
    and "\<forall>i < length gs. 0 < gs ! i \<and> cin mod gs ! i = 0
           \<and> 0 < ocs ! i \<and> ocs ! i mod gs ! i = 0"
    and "\<forall>k \<in> set ks. odd k"
    and "chans x = cin" "0 < cin" "0 < height x" "0 < width x"
  shows "\<exists>m. PyConv2d_init cin ocs ks gs 1 1 b = Inr m
           \<and> map out_channels (pyconv_levels m) = ocs
           \<and> map kernel_size (pyconv_levels m) = ks
           \<and> map groups (pyconv_levels m) = gs
           \<and> (\<forall>c \<in> set (pyconv_levels m). in_channels c = cin \<and> stride c = 1
                 \<and> dilation c = 1 \<and> padding c = kernel_size c div 2 \<and> bias c = b)
           \<and> apply_levels (pyconv_levels m) x =
               Inr (map (\<lambda>c. (c, Tensor (batch x) (out_channels c) (height x) (width x)))
                      (pyconv_levels m))
           \<and> PyConv2d_forward m x =
               Inr (Concat (Tensor (batch x) (sum_list ocs) (height x) (width x))
                      (map (\<lambda>i. (pyconv_levels m ! i, sum_list (take i ocs), ocs ! i))
                         [0..<length ocs]))"
proof -
  from build_levels_props [OF assms(1,2,4), of 1 1 b]
  obtain cs where cs: "build_levels cin ocs ks gs 1 1 b = Inr cs"
      "map out_channels cs = ocs" "map kernel_size cs = ks" "map groups cs = gs"
      "\<forall>c \<in> set cs. in_channels c = cin \<and> stride c = 1 \<and> dilation c = 1
                 \<and> padding c = kernel_size c div 2 \<and> bias c = b
                 \<and> groups c \<le> out_channels c"
    by blast
  have init: "PyConv2d_init cin ocs ks gs 1 1 b = Inr \<lparr>pyconv_levels = cs\<rparr>"
    using assms(1,2) cs(1) by (simp add: PyConv2d_init_def)
  have ne: "cs \<noteq> []"
    using cs(2) assms(3) by auto
  have odd: "\<forall>c \<in> set cs. odd (kernel_size c)"
  proof
    fix c assume "c \<in> set cs"
    then have "kernel_size c \<in> set (map kernel_size cs)" by simp
    with cs(3) assms(5) show "odd (kernel_size c)" by simp
  qed
  have lv: "\<forall>c \<in> set cs. stride c = 1 \<and> dilation c = 1 \<and> odd (kernel_size c)
             \<and> padding c = kernel_size c div 2 \<and> groups c \<le> out_channels c
             \<and> in_channels c = chans x"
    using cs(5) odd assms(6) by simp
  have pos: "0 < chans x"
    using assms(6,7) by simp
  have app: "apply_levels cs x =
          Inr (map (\<lambda>c. (c, Tensor (batch x) (out_channels c) (height x) (width x))) cs)"
    using lv pos assms(8,9) by (rule apply_levels_same)
  have len: "length cs = length ocs"
    using cs(2) by (metis length_map)
  have blk: "map (\<lambda>i. (cs ! i, sum_list (map out_channels (take i cs)), out_channels (cs ! i)))
               [0..<length cs] =
             map (\<lambda>i. (cs ! i, sum_list (take i ocs), ocs ! i)) [0..<length ocs]"
    unfolding cs(2) [symmetric] by (auto simp: take_map)
  have "PyConv2d_forward \<lparr>pyconv_levels = cs\<rparr> x =
          Inr (Concat (Tensor (batch x) (sum_list (map out_channels cs)) (height x) (width x))
                 (map (\<lambda>i. (cs ! i, sum_list (map out_channels (take i cs)),
                            out_channels (cs ! i))) [0..<length cs]))"
    using cat1_of_levels [OF ne, of "batch x" out_channels "height x" "width x"]
    by (simp add: PyConv2d_forward_def app)
  then have fwd: "PyConv2d_forward \<lparr>pyconv_levels = cs\<rparr> x =
          Inr (Concat (Tensor (batch x) (sum_list ocs) (height x) (width x))
                 (map (\<lambda>i. (cs ! i, sum_list (take i ocs), ocs ! i)) [0..<length ocs]))"
    by (simp only: blk cs(2))
  have props: "\<forall>c \<in> set cs. in_channels c = cin \<and> stride c = 1
                 \<and> dilation c = 1 \<and> padding c = kernel_size c div 2 \<and> bias c = b"
    using cs(5) by simp
  show ?thesis
    using init cs(2,3,4) props app fwd by simp
qed

theorem PyConv2d_forward_shape_witness:
  "\<exists>m. PyConv2d_init 64 [16, 16, 32] [3, 5, 7] [1, 4, 8] 1 1 False = Inr m
       \<and> map out_channels (pyconv_levels m) = [16, 16, 32]
       \<and> map kernel_size (pyconv_levels m) = [3, 5, 7]
       \<and> map groups (pyconv_levels m) = [1, 4, 8]
       \<and> apply_levels (pyconv_levels m) (Tensor 4 64 56 56) =
           Inr [(pyconv_levels m ! 0, Tensor 4 16 56 56),
                (pyconv_levels m ! 1, Tensor 4 16 56 56),
                (pyconv_levels m ! 2, Tensor 4 32 56 56)]
       \<and> PyConv2d_forward m (Tensor 4 64 56 56) =
           Inr (Concat (Tensor 4 64 56 56)
                  [(pyconv_levels m ! 0, 0, 16),
                   (pyconv_levels m ! 1, 16, 16),
                   (pyconv_levels m ! 2, 32, 32)])"
proof -
  have "\<exists>m. PyConv2d_init 64 [16, 16, 32] [3, 5, 7] [1, 4, 8] 1 1 False = Inr m
       \<and> map out_channels (pyconv_levels m) = [16, 16, 32]
       \<and> map kernel_size (pyconv_levels m) = [3, 5, 7]
       \<and> map groups (pyconv_levels m) = [1, 4, 8]
       \<and> (\<forall>c \<in> set (pyconv_levels m). in_channels c = 64 \<and> stride c = 1
                 \<and> dilation c = 1 \<and> padding c = kernel_size c div 2 \<and> bias c = False)
       \<and> apply_levels (pyconv_levels m) (Tensor 4 64 56 56) =
               Inr (map (\<lambda>c. (c, Tensor 4 (out_channels c) 56 56)) (pyconv_levels m))
       \<and> PyConv2d_forward m (Tensor 4 64 56 56) =
               Inr (Concat (Tensor 4 64 56 56)
                      (map (\<lambda>i. (pyconv_levels m ! i, sum_list (take i [16, 16, 32]),
                                 [16, 16, 32] ! i))
                         [0..<length [16, 16, 32 :: nat]]))"
    using PyConv2d_forward_shape
      [of "[16, 16, 32]" "[3, 5, 7]" "[1, 4, 8]" 64 "Tensor 4 64 56 56" False]
    by (simp add: All_less_Suc numeral_3_eq_3)
  then obtain m where m:
    "PyConv2d_init 64 [16, 16, 32] [3, 5, 7] [1, 4, 8] 1 1 False = Inr m"
    "map out_channels (pyconv_levels m) = [16, 16, 32]"
    "map kernel_size (pyconv_levels m) = [3, 5, 7]"
    "map groups (pyconv_levels m) = [1, 4, 8]"
    "apply_levels (pyconv_levels m) (Tensor 4 64 56 56) =
               Inr (map (\<lambda>c. (c, Tensor 4 (out_channels c) 56 56)) (pyconv_levels m))"
    "PyConv2d_forward m (Tensor 4 64 56 56) =
               Inr (Concat (Tensor 4 64 56 56)
                      (map (\<lambda>i. (pyconv_levels m ! i, sum_list (take i [16, 16, 32]),
                                 [16, 16, 32] ! i))
                         [0..<length [16, 16, 32 :: nat]]))"
    by (elim exE conjE)
  from m(2) obtain c0 c1 c2 where l: "pyconv_levels m = [c0, c1, c2]"
      "out_channels c0 = 16" "out_channels c1 = 16" "out_channels c2 = 32"
    by auto
  have a: "apply_levels (pyconv_levels m) (Tensor 4 64 56 56) =
           Inr [(pyconv_levels m ! 0, Tensor 4 16 56 56),
                (pyconv_levels m ! 1, Tensor 4 16 56 56),
                (pyconv_levels m ! 2, Tensor 4 32 56 56)]"
    unfolding m(5) by (simp add: l)
  have f: "PyConv2d_forward m (Tensor 4 64 56 56) =
           Inr (Concat (Tensor 4 64 56 56)
                  [(pyconv_levels m ! 0, 0, 16),
                   (pyconv_levels m ! 1, 16, 16),
                   (pyconv_levels m ! 2, 32, 32)])"
    unfolding m(6) by (simp add: l numeral_2_eq_2)
  from m(1,2,3,4) a f show ?thesis
    by (intro exI [of _ m] conjI)
qed

subsection \<open>PyConv4\<close>

lemma conv_extent_strided:
  assumes "dilation c = 1" "odd (kernel_size c)" "padding c = kernel_size c div 2"
    and "0 < n" "0 < stride c"
  shows "conv_extent c n = Inr ((n - 1) div stride c + 1)"
proof -
  from assms(2) obtain j where j: "kernel_size c = 2 * j + 1"
    by (auto elim: oddE)
  have d: "int n + 2 * int j - (2 * int j + 1) = int (n - 1)"
    using assms(4) by simp
  have "nat (int (n - 1) div int (stride c) + 1) = (n - 1) div stride c + 1"
    by (simp add: zdiv_int [symmetric] nat_add_distrib)
  with d assms j show ?thesis
    by (simp add: conv_extent_def Let_def)
qed

lemma conv2d_forward_strided:
  assumes "dilation c = 1" "odd (kernel_size c)" "padding c = kernel_size c div 2"
    and "groups c \<le> out_channels c"
    and "chans x = in_channels c" "0 < chans x" "0 < height x" "0 < width x" "0 < stride c"
  shows "conv2d_forward c x =
           Inr (Tensor (batch x) (out_channels c)
                  ((height x - 1) div stride c + 1) ((width x - 1) div stride c + 1))"
  using assms by (simp add: conv2d_forward_def conv_extent_strided)

lemma conv2d_forward_chans:
  assumes "conv2d_forward c x = Inr y"
  shows "chans y = (if in_channels c = 0 then 0 else out_channels c)"
    and "chans x = in_channels c"
  using assms
  by (auto simp: conv2d_forward_def ebind_eq_Inr split: if_splits)

lemma cat1_chans:
  assumes "cat1 ts = Inr y"
  shows "chans y = sum_list (map chans ts)"
  using assms by (cases ts) (auto split: if_splits)

lemma PyConv4_init_default:
  "PyConv4_init inplans planes default_kernels s default_groups =
     (if 16 dvd inplans \<and> 16 dvd planes div 4
      then Inr \<lparr>conv2_1 = \<lparr>in_channels = inplans, out_channels = planes div 4, kernel_size = 3,
                   stride = s, padding = 1, dilation = 1, groups = 1, bias = False\<rparr>,
                conv2_2 = \<lparr>in_channels = inplans, out_channels = planes div 4, kernel_size = 5,
                   stride = s, padding = 2, dilation = 1, groups = 4, bias = False\<rparr>,
                conv2_3 = \<lparr>in_channels = inplans, out_channels = planes div 4, kernel_size = 7,
                   stride = s, padding = 3, dilation = 1, groups = 8, bias = False\<rparr>,
                conv2_4 = \<lparr>in_channels = inplans, out_channels = planes div 4, kernel_size = 9,
                   stride = s, padding = 4, dilation = 1, groups = 16, bias = False\<rparr>\<rparr>
      else Inl ValueError)"
proof -
  have a: "16 dvd inplans \<longleftrightarrow> inplans mod 4 = 0 \<and> inplans mod 8 = 0 \<and> inplans mod 16 = 0"
    by presburger
  have b: "16 dvd planes div 4 \<longleftrightarrow>
             planes div 4 mod 4 = 0 \<and> planes div 4 mod 8 = 0 \<and> planes div 4 mod 16 = 0"
    by presburger
  show ?thesis
    unfolding a b
    by (simp add: PyConv4_init_def default_kernels_def default_groups_def py_index_def Conv2d_def)
qed



lemma PyConv4_forward_chans:
  assumes "PyConv4_forward m x = Inr y"
  shows "chans (joined y) =
           (if chans x = 0 then 0
            else out_channels (conv2_1 m) + out_channels (conv2_2 m)
               + out_channels (conv2_3 m) + out_channels (conv2_4 m))"
    and "chans x = in_channels (conv2_1 m)"
proof -
  from assms obtain y1 y2 y3 y4 where
    y: "conv2d_forward (conv2_1 m) x = Inr y1" "conv2d_forward (conv2_2 m) x = Inr y2"
       "conv2d_forward (conv2_3 m) x = Inr y3" "conv2d_forward (conv2_4 m) x = Inr y4"
       "cat1_of [(conv2_1 m, y1), (conv2_2 m, y2), (conv2_3 m, y3), (conv2_4 m, y4)] = Inr y"
    unfolding PyConv4_forward_def ebind_eq_Inr by blast
  from cat1_of_Inr(1) [OF y(5)] have "cat1 [y1, y2, y3, y4] = Inr (joined y)"
    by simp
  from cat1_chans [OF this] have s: "chans (joined y) = chans y1 + chans y2 + chans y3 + chans y4"
    by simp
  note i = conv2d_forward_chans(2) [OF y(1)] conv2d_forward_chans(2) [OF y(2)]
    conv2d_forward_chans(2) [OF y(3)] conv2d_forward_chans(2) [OF y(4)]
  show "chans x = in_channels (conv2_1 m)"
    by (rule i(1))
  have "chans y1 = (if chans x = 0 then 0 else out_channels (conv2_1 m))"
      "chans y2 = (if chans x = 0 then 0 else out_channels (conv2_2 m))"
      "chans y3 = (if chans x = 0 then 0 else out_channels (conv2_3 m))"
      "chans y4 = (if chans x = 0 then 0 else out_channels (conv2_4 m))"
    using conv2d_forward_chans(1) [OF y(1)] conv2d_forward_chans(1) [OF y(2)]
      conv2d_forward_chans(1) [OF y(3)] conv2d_forward_chans(1) [OF y(4)] i
    by simp_all
  with s show "chans (joined y) =
           (if chans x = 0 then 0
            else out_channels (conv2_1 m) + out_channels (conv2_2 m)
               + out_channels (conv2_3 m) + out_channels (conv2_4 m))"
    by simp
qed

lemma PyConv4_forward_default:
  assumes "PyConv4_init inplans planes default_kernels s default_groups = Inr m"
    and "chans x = inplans" "0 < inplans" "0 < planes div 4"
    and "0 < height x" "0 < width x" "0 < s"
  shows "PyConv4_forward m x =
           Inr (Concat (Tensor (batch x) (4 * (planes div 4))
                          ((height x - 1) div s + 1) ((width x - 1) div s + 1))
                  [(conv2_1 m, 0, planes div 4),
                   (conv2_2 m, planes div 4, planes div 4),
                   (conv2_3 m, 2 * (planes div 4), planes div 4),
                   (conv2_4 m, 3 * (planes div 4), planes div 4)])"
proof -
  from assms(1) have d: "16 dvd planes div 4"
    by (simp add: PyConv4_init_default split: if_splits)
  with assms(4) have q: "16 \<le> planes div 4"
    by (auto intro: dvd_imp_le)
  from assms(1) have m: "m = \<lparr>conv2_1 = \<lparr>in_channels = inplans, out_channels = planes div 4, kernel_size = 3,
                   stride = s, padding = 1, dilation = 1, groups = 1, bias = False\<rparr>,
                conv2_2 = \<lparr>in_channels = inplans, out_channels = planes div 4, kernel_size = 5,
                   stride = s, padding = 2, dilation = 1, groups = 4, bias = False\<rparr>,
                conv2_3 = \<lparr>in_channels = inplans, out_channels = planes div 4, kernel_size = 7,
                   stride = s, padding = 3, dilation = 1, groups = 8, bias = False\<rparr>,
                conv2_4 = \<lparr>in_channels = inplans, out_channels = planes div 4, kernel_size = 9,
                   stride = s, padding = 4, dilation = 1, groups = 16, bias = False\<rparr>\<rparr>"
    by (simp add: PyConv4_init_default split: if_splits)
  let ?y = "Tensor (batch x) (planes div 4)
              ((height x - 1) div s + 1) ((width x - 1) div s + 1)"
  have c: "conv2d_forward (conv2_1 m) x = Inr ?y" "conv2d_forward (conv2_2 m) x = Inr ?y"
      "conv2d_forward (conv2_3 m) x = Inr ?y" "conv2d_forward (conv2_4 m) x = Inr ?y"
    using assms(2,3,5,6,7) q unfolding m by (simp_all add: conv2d_forward_strided)
  show ?thesis
    unfolding PyConv4_forward_def c
    by (simp add: cat1_of_def cat_blocks_def numeral_2_eq_2 numeral_3_eq_3)
qed

lemma PyConv_layer_default:
  assumes "PyConv4_init inplans planes default_kernels s default_groups = Inr m"
    and "chans x = inplans" "0 < inplans" "0 < planes div 4"
    and "0 < height x" "0 < width x" "0 < s"
  shows "layer_forward tr (PyConv m) x =
           Inr (Tensor (batch x) (4 * (planes div 4))
                  ((height x - 1) div s + 1) ((width x - 1) div s + 1))"
  by (simp add: PyConv4_forward_default [OF assms])




text \<open>
  Claim C6 says that a \<^verbatim>\<open>PyConv4\<close> with \<^verbatim>\<open>planes\<close> not divisible by 4 is rejected
  at construction by an explicit check. The constructor has no such check; it computes
  \<^verbatim>\<open>planes // 4\<close> and gives it to every level. With 16 input channels and
  \<^verbatim>\<open>planes = 66\<close> the construction succeeds, every level has 16 output channels, and
  \<^verbatim>\<open>forward\<close> returns 64 channels.
\<close>

theorem PyConv4_truncates_counterexample:
  "PyConv4_init 16 66 default_kernels 1 default_groups =
     Inr \<lparr>conv2_1 = \<lparr>in_channels = 16, out_channels = 16, kernel_size = 3,
                   stride = 1, padding = 1, dilation = 1, groups = 1, bias = False\<rparr>,
          conv2_2 = \<lparr>in_channels = 16, out_channels = 16, kernel_size = 5,
                   stride = 1, padding = 2, dilation = 1, groups = 4, bias = False\<rparr>,
          conv2_3 = \<lparr>in_channels = 16, out_channels = 16, kernel_size = 7,
                   stride = 1, padding = 3, dilation = 1, groups = 8, bias = False\<rparr>,
          conv2_4 = \<lparr>in_channels = 16, out_channels = 16, kernel_size = 9,
                   stride = 1, padding = 4, dilation = 1, groups = 16, bias = False\<rparr>\<rparr>
   \<and> (66::nat) mod 4 \<noteq> 0
   \<and> PyConv4_forward
        \<lparr>conv2_1 = \<lparr>in_channels = 16, out_channels = 16, kernel_size = 3,
                   stride = 1, padding = 1, dilation = 1, groups = 1, bias = False\<rparr>,
          conv2_2 = \<lparr>in_channels = 16, out_channels = 16, kernel_size = 5,
                   stride = 1, padding = 2, dilation = 1, groups = 4, bias = False\<rparr>,
          conv2_3 = \<lparr>in_channels = 16, out_channels = 16, kernel_size = 7,
                   stride = 1, padding = 3, dilation = 1, groups = 8, bias = False\<rparr>,
          conv2_4 = \<lparr>in_channels = 16, out_channels = 16, kernel_size = 9,
                   stride = 1, padding = 4, dilation = 1, groups = 16, bias = False\<rparr>\<rparr>
        (Tensor 1 16 7 7) =
       Inr (Concat (Tensor 1 64 7 7)
         [(\<lparr>in_channels = 16, out_channels = 16, kernel_size = 3,
             stride = 1, padding = 1, dilation = 1, groups = 1, bias = False\<rparr>, 0, 16),
          (\<lparr>in_channels = 16, out_channels = 16, kernel_size = 5,
             stride = 1, padding = 2, dilation = 1, groups = 4, bias = False\<rparr>, 16, 16),
          (\<lparr>in_channels = 16, out_channels = 16, kernel_size = 7,
             stride = 1, padding = 3, dilation = 1, groups = 8, bias = False\<rparr>, 32, 16),
          (\<lparr>in_channels = 16, out_channels = 16, kernel_size = 9,
             stride = 1, padding = 4, dilation = 1, groups = 16, bias = False\<rparr>, 48, 16)])"
  by (simp add: PyConv4_init_def default_kernels_def default_groups_def py_index_def Conv2d_def
      PyConv4_forward_def conv2d_forward_def conv_extent_def Let_def cat1_of_def cat_blocks_def)

text \<open>
  Claim C6, amended. The constructor of \<^verbatim>\<open>PyConv4\<close> has no divisibility check on
  \<^verbatim>\<open>planes\<close>: every level gets \<^verbatim>\<open>planes // 4\<close> output channels, rounded down. With
  the default kernels and groups the construction fails, with the \<^verbatim>\<open>ValueError\<close> of the
  runtime's grouped convolution, exactly when 16 does not divide \<^verbatim>\<open>inplans\<close> or does
  not divide \<^verbatim>\<open>planes // 4\<close>, and succeeds otherwise; whenever it succeeds and
  \<^verbatim>\<open>forward\<close> returns, the input has \<^verbatim>\<open>inplans\<close> channels and the result has
  \<^verbatim>\<open>4 * (planes // 4)\<close> channels, or none if \<^verbatim>\<open>inplans\<close> is 0.
\<close>

theorem PyConv4_init_floor:
  "(PyConv4_init inplans planes default_kernels s default_groups = Inl ValueError
      \<longleftrightarrow> \<not> (16 dvd inplans \<and> 16 dvd planes div 4))
   \<and> ((\<exists>m. PyConv4_init inplans planes default_kernels s default_groups = Inr m)
      \<longleftrightarrow> 16 dvd inplans \<and> 16 dvd planes div 4)
   \<and> (\<forall>m. PyConv4_init inplans planes default_kernels s default_groups = Inr m \<longrightarrow>
         out_channels (conv2_1 m) = planes div 4 \<and> out_channels (conv2_2 m) = planes div 4
         \<and> out_channels (conv2_3 m) = planes div 4 \<and> out_channels (conv2_4 m) = planes div 4
         \<and> (\<forall>x y. PyConv4_forward m x = Inr y \<longrightarrow>
               chans x = inplans
             \<and> chans (joined y) = (if inplans = 0 then 0 else 4 * (planes div 4))))"
proof -
  have a: "PyConv4_init inplans planes default_kernels s default_groups = Inl ValueError
      \<longleftrightarrow> \<not> (16 dvd inplans \<and> 16 dvd planes div 4)"
    by (simp add: PyConv4_init_default)
  have b: "(\<exists>m. PyConv4_init inplans planes default_kernels s default_groups = Inr m)
      \<longleftrightarrow> 16 dvd inplans \<and> 16 dvd planes div 4"
    by (simp add: PyConv4_init_default)
  have c: "\<forall>m. PyConv4_init inplans planes default_kernels s default_groups = Inr m \<longrightarrow>
         out_channels (conv2_1 m) = planes div 4 \<and> out_channels (conv2_2 m) = planes div 4
         \<and> out_channels (conv2_3 m) = planes div 4 \<and> out_channels (conv2_4 m) = planes div 4
         \<and> (\<forall>x y. PyConv4_forward m x = Inr y \<longrightarrow>
               chans x = inplans
             \<and> chans (joined y) = (if inplans = 0 then 0 else 4 * (planes div 4)))"
  proof (intro allI impI)
    fix m assume i: "PyConv4_init inplans planes default_kernels s default_groups = Inr m"
    then have oc: "out_channels (conv2_1 m) = planes div 4 \<and> out_channels (conv2_2 m) = planes div 4
         \<and> out_channels (conv2_3 m) = planes div 4 \<and> out_channels (conv2_4 m) = planes div 4"
      and ic: "in_channels (conv2_1 m) = inplans"
      by (auto simp: PyConv4_init_default split: if_splits)
    have "\<forall>x y. PyConv4_forward m x = Inr y \<longrightarrow>
               chans x = inplans
             \<and> chans (joined y) = (if inplans = 0 then 0 else 4 * (planes div 4))"
    proof (intro allI impI)
      fix x y assume f: "PyConv4_forward m x = Inr y"
      from PyConv4_forward_chans(2) [OF f] ic have x: "chans x = inplans"
        by simp
      from PyConv4_forward_chans(1) [OF f] oc x
      show "chans x = inplans
             \<and> chans (joined y) = (if inplans = 0 then 0 else 4 * (planes div 4))"
        by simp
    qed
    with oc show "out_channels (conv2_1 m) = planes div 4 \<and> out_channels (conv2_2 m) = planes div 4
         \<and> out_channels (conv2_3 m) = planes div 4 \<and> out_channels (conv2_4 m) = planes div 4
         \<and> (\<forall>x y. PyConv4_forward m x = Inr y \<longrightarrow>
               chans x = inplans
             \<and> chans (joined y) = (if inplans = 0 then 0 else 4 * (planes div 4)))"
      by (intro conjI) simp_all
  qed
  from a b c show ?thesis by (intro conjI)
qed

theorem PyConv4_init_floor_witness:
  "\<exists>m y. PyConv4_init 16 66 default_kernels 1 default_groups = Inr m
       \<and> out_channels (conv2_1 m) = 16 \<and> out_channels (conv2_4 m) = 16
       \<and> PyConv4_forward m (Tensor 1 16 7 7) = Inr y
       \<and> joined y = Tensor 1 64 7 7
       \<and> chans (joined y) = 4 * (66 div 4)"
proof -
  have d: "16 dvd (16::nat) \<and> 16 dvd (66::nat) div 4"
    by simp
  with PyConv4_init_floor [of 16 66 1]
  obtain m where m: "PyConv4_init 16 66 default_kernels 1 default_groups = Inr m"
    by blast
  with PyConv4_init_floor [of 16 66 1]
  have oc: "out_channels (conv2_1 m) = 66 div 4 \<and> out_channels (conv2_4 m) = 66 div 4"
    by blast
  from PyConv4_forward_default [OF m, of "Tensor 1 16 7 7"]
  obtain y where f: "PyConv4_forward m (Tensor 1 16 7 7) = Inr y"
      "joined y = Tensor 1 64 7 7"
    by simp
  from m f(1) PyConv4_init_floor [of 16 66 1]
  have "chans (joined y) = (if (16::nat) = 0 then 0 else 4 * (66 div 4))"
    by blast
  with m oc f show ?thesis
    by (intro exI [of _ m] exI [of _ y]) simp
qed

subsection \<open>GlobalPyConvBlock\<close>

lemma Conv2d_Inr:
  assumes "Conv2d cin cout k s p d g b = Inr c"
  shows "c = \<lparr>in_channels = cin, out_channels = cout, kernel_size = k, stride = s,
               padding = p, dilation = d, groups = g, bias = b\<rparr>"
  using assms by (simp add: Conv2d_def split: if_splits)

lemma conv1x1_forward:
  assumes "Conv2d cin cout 1 1 0 1 1 b = Inr c"
    and "chans x = cin" "0 < cin" "0 < cout" "0 < height x" "0 < width x"
  shows "conv2d_forward c x = Inr (Tensor (batch x) cout (height x) (width x))"
proof -
  note c = Conv2d_Inr [OF assms(1)]
  have "conv2d_forward c x = Inr (Tensor (batch x) (out_channels c) (height x) (width x))"
    by (rule conv2d_forward_same) (use assms(2-6) in \<open>simp_all add: c\<close>)
  then show ?thesis by (simp add: c)
qed

lemma PyConv4_init_dvd:
  assumes "PyConv4_init inplans planes default_kernels s default_groups = Inr m"
  shows "16 dvd inplans" "16 dvd planes div 4"
  using assms by (simp_all add: PyConv4_init_default split: if_splits)

lemma sequential_append:
  "sequential_forward tr (as @ bs) x =
     ebind (sequential_forward tr as x) (sequential_forward tr bs)"
  by (induction as arbitrary: x) (simp_all add: ebind_def split: sum.splits)

lemma sequential_ends_BatchNorm_ReLU:
  assumes "sequential_forward tr (ls @ [BatchNorm n, ReLU]) x = Inr y"
  shows "chans y = n"
  using assms
  by (auto simp: sequential_append ebind_eq_Inr split: if_splits)

lemma interpolate_Inr:
  assumes "interpolate x sz = Inr y"
  shows "height y = fst sz" "width y = snd sz" "chans y = chans x" "batch y = batch x"
  using assms by (auto simp: interpolate_def split: if_splits)

lemma GlobalPyConvBlock_features:
  assumes "GlobalPyConvBlock_init in_dim reduction_dim bins = Inr m"
  shows "\<exists>c1 pc c2. Conv2d in_dim reduction_dim 1 1 0 1 1 False = Inr c1
           \<and> PyConv4_init reduction_dim reduction_dim default_kernels 1 default_groups = Inr pc
           \<and> Conv2d reduction_dim reduction_dim 1 1 0 1 1 False = Inr c2
           \<and> global_features m =
                [AdaptiveAvgPool2d bins,
                 Conv c1, BatchNorm reduction_dim, ReLU,
                 PyConv pc, BatchNorm reduction_dim, ReLU,
                 Conv c2, BatchNorm reduction_dim, ReLU]"
  using assms unfolding GlobalPyConvBlock_init_def ebind_eq_Inr by auto

lemma GlobalPyConvBlock_partial:
  assumes "GlobalPyConvBlock_init in_dim reduction_dim bins = Inr m"
    and "GlobalPyConvBlock_forward tr m x = Inr y"
  shows "height y = height x \<and> width y = width x \<and> chans y = reduction_dim"
proof -
  from GlobalPyConvBlock_features [OF assms(1)] obtain c1 pc c2 where
    f: "global_features m =
          [AdaptiveAvgPool2d bins, Conv c1, BatchNorm reduction_dim, ReLU,
           PyConv pc, BatchNorm reduction_dim, ReLU, Conv c2] @ [BatchNorm reduction_dim, ReLU]"
    by auto
  from assms(2) obtain z where
    z: "sequential_forward tr (global_features m) x = Inr z"
       "interpolate z (height x, width x) = Inr y"
    unfolding GlobalPyConvBlock_forward_def ebind_eq_Inr by blast
  from z(1) have "chans z = reduction_dim"
    unfolding f by (rule sequential_ends_BatchNorm_ReLU)
  with interpolate_Inr [OF z(2)] show ?thesis by simp
qed


lemma GlobalPyConvBlock_total:
  assumes "GlobalPyConvBlock_init in_dim reduction_dim bins = Inr m"
    and "chans x = in_dim" "0 < in_dim" "0 < reduction_dim" "0 < height x" "0 < width x"
    and "0 < bins" "\<not> (tr \<and> batch x * bins * bins = 1)"
  shows "GlobalPyConvBlock_forward tr m x =
           Inr (Tensor (batch x) reduction_dim (height x) (width x))"
proof -
  from GlobalPyConvBlock_features [OF assms(1)] obtain c1 pc c2 where
    c1: "Conv2d in_dim reduction_dim 1 1 0 1 1 False = Inr c1" and
    pc: "PyConv4_init reduction_dim reduction_dim default_kernels 1 default_groups = Inr pc" and
    c2: "Conv2d reduction_dim reduction_dim 1 1 0 1 1 False = Inr c2" and
    f: "global_features m =
          [AdaptiveAvgPool2d bins, Conv c1, BatchNorm reduction_dim, ReLU,
           PyConv pc, BatchNorm reduction_dim, ReLU, Conv c2, BatchNorm reduction_dim, ReLU]"
    by blast
  let ?p = "Tensor (batch x) in_dim bins bins"
  let ?q = "Tensor (batch x) reduction_dim bins bins"
  from PyConv4_init_dvd(1) [OF pc] have q4: "4 * (reduction_dim div 4) = reduction_dim"
    by presburger
  with assms(4) have p4: "0 < reduction_dim div 4"
    by presburger
  have s1: "conv2d_forward c1 ?p = Inr ?q"
    using conv1x1_forward [OF c1, of ?p] assms(3,4,7) by simp
  have s2: "layer_forward tr (PyConv pc) ?q = Inr ?q"
    using PyConv_layer_default [OF pc, of ?q tr] assms(4,7) p4 q4 by simp
  have s3: "conv2d_forward c2 ?q = Inr ?q"
    using conv1x1_forward [OF c2, of ?q] assms(4,7) by simp
  have bn: "\<not> (tr \<and> batch x * bins * bins = 1)"
    by (rule assms(8))
  have seq: "sequential_forward tr (global_features m) x = Inr ?q"
    unfolding f using assms(2,3,5,6) bn
    by (simp add: s1 s2 s3 del: layer_forward.simps(6))
  show ?thesis
    unfolding GlobalPyConvBlock_forward_def seq
    using assms(4,5,6,7) by (simp add: interpolate_def)
qed

text \<open>
  Claim C4. Take a \<^verbatim>\<open>GlobalPyConvBlock\<close> constructed with a 9 by 9 pooling grid.
  Whenever its \<^verbatim>\<open>forward\<close> returns, in training or inference mode, the result has the
  height and the width of the input and as many channels as the reduction dimension.
  And it does return, with the batch size of the input, on every input that has the
  block's input channel count and positive height and width, whatever these are
  (both channel counts being positive).
\<close>

theorem GlobalPyConvBlock_shape:
  assumes "GlobalPyConvBlock_init in_dim reduction_dim 9 = Inr m"
  shows "(\<forall>tr x y. GlobalPyConvBlock_forward tr m x = Inr y \<longrightarrow>
            height y = height x \<and> width y = width x \<and> chans y = reduction_dim)
       \<and> (\<forall>tr x. chans x = in_dim \<and> 0 < in_dim \<and> 0 < reduction_dim
                \<and> 0 < height x \<and> 0 < width x \<longrightarrow>
            GlobalPyConvBlock_forward tr m x =
              Inr (Tensor (batch x) reduction_dim (height x) (width x)))"
proof (intro conjI allI impI)
  fix tr x y assume "GlobalPyConvBlock_forward tr m x = Inr y"
  from GlobalPyConvBlock_partial [OF assms this]
  show "height y = height x" "width y = width x" "chans y = reduction_dim"
    by simp_all
next
  fix tr x
  assume h: "chans x = in_dim \<and> 0 < in_dim \<and> 0 < reduction_dim
               \<and> 0 < height x \<and> 0 < width x"
  have "\<not> (tr \<and> batch x * 9 * 9 = 1)"
    by presburger
  with GlobalPyConvBlock_total [OF assms, of x tr] h
  show "GlobalPyConvBlock_forward tr m x =
          Inr (Tensor (batch x) reduction_dim (height x) (width x))"
    by simp
qed

theorem GlobalPyConvBlock_shape_witness:
  "\<exists>m. GlobalPyConvBlock_init 2048 512 9 = Inr m
       \<and> GlobalPyConvBlock_forward True m (Tensor 1 2048 64 64) = Inr (Tensor 1 512 64 64)
       \<and> GlobalPyConvBlock_forward False m (Tensor 2 2048 129 129) = Inr (Tensor 2 512 129 129)"
proof -
  have "\<exists>m. GlobalPyConvBlock_init 2048 512 9 = Inr m"
    by (simp add: GlobalPyConvBlock_init_def Conv2d_def PyConv4_init_default)
  then obtain m where m: "GlobalPyConvBlock_init 2048 512 9 = Inr m"
    by blast
  from GlobalPyConvBlock_shape [OF m] have
    t: "\<And>tr x. chans x = 2048 \<and> 0 < (2048::nat) \<and> 0 < (512::nat)
                \<and> 0 < height x \<and> 0 < width x \<Longrightarrow>
            GlobalPyConvBlock_forward tr m x =
              Inr (Tensor (batch x) 512 (height x) (width x))"
    by blast
  from t [of "Tensor 1 2048 64 64" True] t [of "Tensor 2 2048 129 129" False] m
  show ?thesis by simp
qed

subsection \<open>The head and the constructor of PyConvSegNet\<close>

lemma LocalPyConvBlock_total:
  assumes "LocalPyConvBlock_init inplanes planes r = Inr m"
    and "chans x = inplanes" "0 < inplanes div r" "0 < planes" "0 < height x" "0 < width x"
    and "\<not> (tr \<and> batch x * height x * width x = 1)"
  shows "LocalPyConvBlock_forward tr m x =
           Inr (Tensor (batch x) planes (height x) (width x))"
proof -
  let ?d = "inplanes div r"
  from assms(1) obtain c1 pc c2 where
    c1: "Conv2d inplanes ?d 1 1 0 1 1 False = Inr c1" and
    pc: "PyConv4_init ?d ?d default_kernels 1 default_groups = Inr pc" and
    c2: "Conv2d ?d planes 1 1 0 1 1 False = Inr c2" and
    f: "local_layers m =
          [Conv c1, BatchNorm ?d, ReLU, PyConv pc, BatchNorm ?d, ReLU,
           Conv c2, BatchNorm planes, ReLU]"
    by (auto simp: LocalPyConvBlock_init_def ebind_eq_Inr split: if_splits)
  let ?q = "Tensor (batch x) ?d (height x) (width x)"
  have "\<And>d::nat. 16 dvd d \<Longrightarrow> 4 * (d div 4) = d"
    by presburger
  from this [OF PyConv4_init_dvd(1) [OF pc]] have q4: "4 * (?d div 4) = ?d" .
  have "\<And>d::nat. 0 < d \<Longrightarrow> 4 * (d div 4) = d \<Longrightarrow> 0 < d div 4"
    by presburger
  from this [OF assms(3) q4] have p4: "0 < ?d div 4" .
  from assms(3) have ip: "0 < inplanes"
    by (cases "inplanes = 0") simp_all
  have s1: "conv2d_forward c1 x = Inr ?q"
    using conv1x1_forward [OF c1, of x] assms(2,3,5,6) ip by simp
  have s2: "layer_forward tr (PyConv pc) ?q = Inr ?q"
    using PyConv_layer_default [OF pc, of ?q tr] assms(3,5,6) p4 q4 by simp
  have s3: "conv2d_forward c2 ?q = Inr (Tensor (batch x) planes (height x) (width x))"
    using conv1x1_forward [OF c2, of ?q] assms(3,4,5,6) by simp
  show ?thesis
    unfolding LocalPyConvBlock_forward_def f using assms(7)
    by (simp add: s1 s2 s3 del: layer_forward.simps(6))
qed

lemma MergeLocalGlobal_total:
  assumes "MergeLocalGlobal_init inplanes planes = Inr m"
    and "chans a + chans b = inplanes" "batch b = batch a" "height b = height a"
    and "width b = width a" "0 < height a" "0 < width a"
    and "\<not> (tr \<and> batch a * height a * width a = 1)"
    and "0 < inplanes" "0 < planes"
  shows "MergeLocalGlobal_forward tr m a b =
           Inr (Tensor (batch a) planes (height a) (width a))"
proof -
  from assms(1) obtain c where
    c: "Conv2d inplanes planes 3 1 1 1 1 False = Inr c" and
    f: "merge_features m = [Conv c, BatchNorm planes, ReLU]"
    unfolding MergeLocalGlobal_init_def ebind_eq_Inr by auto
  note cr = Conv2d_Inr [OF c]
  let ?t = "Tensor (batch a) inplanes (height a) (width a)"
  have cat: "cat1 [a, b] = Inr ?t"
    using assms(2-5) by simp
  have "conv2d_forward c ?t =
          Inr (Tensor (batch ?t) (out_channels c) (height ?t) (width ?t))"
    by (rule conv2d_forward_same) (use assms(6,7,9,10) in \<open>simp_all add: cr\<close>)
  then have s: "conv2d_forward c ?t = Inr (Tensor (batch a) planes (height a) (width a))"
    by (simp add: cr)
  show ?thesis
    unfolding MergeLocalGlobal_forward_def cat f using assms(8)
    by (simp add: s)
qed

lemma PyConvHead_total:
  assumes "PyConvHead_init inplanes planes = Inr m"
    and "chans x = inplanes" "0 < inplanes" "0 < height x" "0 < width x"
    and "\<not> (tr \<and> batch x * height x * width x = 1)"
    and "0 < inplanes div 4" "0 < planes"
  shows "PyConvHead_forward tr m x = Inr (Tensor (batch x) planes (height x) (width x))"
proof -
  from assms(1) obtain lc gc mc where
    lc: "LocalPyConvBlock_init inplanes 512 4 = Inr lc" and
    gc: "GlobalPyConvBlock_init inplanes 512 9 = Inr gc" and
    mc: "MergeLocalGlobal_init (512 + 512) planes = Inr mc" and
    m: "m = \<lparr>local_context = lc, global_context = gc, merge_context = mc\<rparr>"
    unfolding PyConvHead_init_def Let_def ebind_eq_Inr by auto
  let ?t = "Tensor (batch x) 512 (height x) (width x)"
  have l: "LocalPyConvBlock_forward tr lc x = Inr ?t"
    using LocalPyConvBlock_total [OF lc assms(2,7) _ assms(4,5,6)] by simp
  have "\<not> (tr \<and> batch x * 9 * 9 = 1)"
    by presburger
  then have g: "GlobalPyConvBlock_forward tr gc x = Inr ?t"
    using GlobalPyConvBlock_total [OF gc assms(2,3) _ assms(4,5), of tr] by simp
  have mg: "MergeLocalGlobal_forward tr mc ?t ?t =
              Inr (Tensor (batch ?t) planes (height ?t) (width ?t))"
    by (rule MergeLocalGlobal_total [OF mc]) (use assms(4,5,6,8) in simp_all)
  show ?thesis
    unfolding PyConvHead_forward_def m using l g mg by simp
qed

lemma PyConvSegNet_init_fields:
  assumes "PyConvSegNet_init build layers classes zf crit pretrained bos net = Inr m"
  shows "\<exists>bb hd a1 a2 c.
           build net layers pretrained bos = Inr bb
         \<and> PyConvHead_init 2048 256 = Inr hd
         \<and> Conv2d 1024 256 3 1 1 1 1 False = Inr a1
         \<and> Conv2d 256 classes 1 1 0 1 1 True = Inr a2
         \<and> Conv2d 256 classes 1 1 0 1 1 True = Inr c
         \<and> m = \<lparr>zoom_factor = zf, criterion = crit,
               layer0 = stage0 bb, layer1 = stage1 bb, layer2 = stage2 bb,
               layer3 = stage3 bb, layer4 = stage4 bb,
               pyconvhead = hd,
               aux = [Conv a1, BatchNorm 256, ReLU, Dropout2d, Conv a2],
               cls = [Dropout2d, Conv c],
               training = True,
               merge_with_stages = None\<rparr>
         \<and> layers \<in> set [50, 101, 152, 200] \<and> 1 < classes \<and> zf \<in> set [1, 2, 4, 8]"
  using assms unfolding PyConvSegNet_init_def Let_def
  by (auto simp: ebind_eq_Inr split: if_splits)

subsection \<open>The forward computation of PyConvSegNet\<close>

lemma rbind_call_Inl [simp]: "rbind (call ev (Inl e)) f = ([ev], Inl e)"
  by (simp add: rbind_def call_def)

lemma rbind_call_Inr [simp]: "rbind (call ev (Inr a)) f = (ev # fst (f a), snd (f a))"
  by (simp add: rbind_def call_def)

lemma rbind_ret [simp]: "rbind (ret a) f = f a"
  by (simp add: rbind_def ret_def)

lemma fst_rbind_call: "\<exists>rest. fst (rbind (call ev r) f) = ev # rest"
  by (cases r) simp_all

lemma isl_rbind:
  assumes "\<And>a. snd r = Inr a \<Longrightarrow> isl (snd (f a))"
  shows "isl (snd (rbind r f))"
  using assms by (cases "snd r") (simp_all add: rbind_def)

lemma sample_init:
  "\<exists>m. PyConvSegNet_init sample_builder 50 150 zf CrossEntropyLoss True 8 ''resnet'' = Inr m
       \<or> zf \<notin> set [1, 2, 4, 8]"
  by (simp add: PyConvSegNet_init_def sample_builder_def PyConvHead_init_def
      LocalPyConvBlock_init_def GlobalPyConvBlock_init_def MergeLocalGlobal_init_def
      Conv2d_def PyConv4_init_default Let_def)

lemma forward_inference:
  assumes "(int (height x) - 1) mod 8 = 0 \<and> (int (width x) - 1) mod 8 = 0"
    and "\<not> training m"
    and "layer0 m False x = Inr x0" "layer1 m False x0 = Inr x1" "layer2 m False x1 = Inr x2"
    and "layer3 m False x2 = Inr s3" "layer4 m False s3 = Inr x4"
    and "PyConvHead_forward False (pyconvhead m) x4 = Inr x5"
    and "sequential_forward False (cls m) x5 = Inr x6"
  shows "PyConvSegNet_forward m x y =
           (if zoom_factor m \<noteq> 1
            then ([Layer0, Layer1, Layer2, Layer3, Layer4, Head, Cls,
                   UpsampleLogits (target_extent (height x) (zoom_factor m))
                     (target_extent (width x) (zoom_factor m))],
                  ebind (interpolate x6 (target_extent (height x) (zoom_factor m),
                                         target_extent (width x) (zoom_factor m)))
                    (\<lambda>z. Inr (Logits z)))
            else ([Layer0, Layer1, Layer2, Layer3, Layer4, Head, Cls], Inr (Logits x6)))"
  using assms
  by (simp add: PyConvSegNet_forward_def Let_def ret_def rbind_def call_def ebind_def
      split: sum.splits)

text \<open>
  Claim C3. When the height or the width of the input does not satisfy
  \<open>(dim - 1) mod 8 = 0\<close>, \<^verbatim>\<open>forward\<close> raises the assertion's error with an empty call
  log: no backbone stage, head or classifier has been called. When both satisfy it,
  the assertion passes and the computation goes on to the layers: the log starts with
  the call of the first backbone stage, and an error of that stage is the error of
  \<^verbatim>\<open>forward\<close>. This holds for every model object, label argument and mode.
\<close>

theorem forward_shape_check:
  "(\<not> ((int (height x) - 1) mod 8 = 0 \<and> (int (width x) - 1) mod 8 = 0) \<longrightarrow>
      PyConvSegNet_forward m x y = ([], Inl AssertionError))
   \<and> ((int (height x) - 1) mod 8 = 0 \<and> (int (width x) - 1) mod 8 = 0 \<longrightarrow>
      (\<exists>rest. fst (PyConvSegNet_forward m x y) = Layer0 # rest)
      \<and> (\<forall>e. layer0 m (training m) x = Inl e \<longrightarrow>
            PyConvSegNet_forward m x y = ([Layer0], Inl e)))"
proof (intro conjI impI allI)
  assume "\<not> ((int (height x) - 1) mod 8 = 0 \<and> (int (width x) - 1) mod 8 = 0)"
  then show "PyConvSegNet_forward m x y = ([], Inl AssertionError)"
    by (simp add: PyConvSegNet_forward_def raise_def)
next
  assume ok: "(int (height x) - 1) mod 8 = 0 \<and> (int (width x) - 1) mod 8 = 0"
  then show "\<exists>rest. fst (PyConvSegNet_forward m x y) = Layer0 # rest"
    unfolding PyConvSegNet_forward_def Let_def
    by (simp only: if_False not_True_eq_False simp_thms fst_rbind_call)
next
  fix e
  assume ok: "(int (height x) - 1) mod 8 = 0 \<and> (int (width x) - 1) mod 8 = 0"
    and "layer0 m (training m) x = Inl e"
  then show "PyConvSegNet_forward m x y = ([Layer0], Inl e)"
    by (simp add: PyConvSegNet_forward_def Let_def)
qed

theorem forward_shape_check_witness:
  "\<exists>m. PyConvSegNet_init sample_builder 50 150 8 CrossEntropyLoss True 8 ''resnet'' = Inr m
       \<and> PyConvSegNet_forward (eval_mode m) (Tensor 1 3 100 100) None = ([], Inl AssertionError)
       \<and> (\<exists>rest. fst (PyConvSegNet_forward (eval_mode m) (Tensor 1 3 473 473) None)
             = Layer0 # rest)"
proof -
  from sample_init [of 8] obtain m where
    m: "PyConvSegNet_init sample_builder 50 150 8 CrossEntropyLoss True 8 ''resnet'' = Inr m"
    by auto
  have a: "PyConvSegNet_forward (eval_mode m) (Tensor 1 3 100 100) None = ([], Inl AssertionError)"
    using forward_shape_check [of "Tensor 1 3 100 100" "eval_mode m" None] by simp
  have b: "\<exists>rest. fst (PyConvSegNet_forward (eval_mode m) (Tensor 1 3 473 473) None)
             = Layer0 # rest"
    using forward_shape_check [of "Tensor 1 3 473 473" "eval_mode m" None] by simp
  from m a b show ?thesis by blast
qed

subsection \<open>Inference mode\<close>

lemma target_extent_pos: "0 < target_extent n zf"
  by (simp add: target_extent_def)

lemma constructed_inference:
  assumes init: "PyConvSegNet_init build layers classes zf crit pretrained bos net = Inr m0"
    and bb: "build net layers pretrained bos = Inr bb"
    and ok: "(int (height x) - 1) mod 8 = 0 \<and> (int (width x) - 1) mod 8 = 0"
    and st: "stage0 bb False x = Inr x0" "stage1 bb False x0 = Inr x1"
      "stage2 bb False x1 = Inr x2" "stage3 bb False x2 = Inr s3" "stage4 bb False s3 = Inr x4"
    and x4: "chans x4 = 2048" "0 < height x4" "0 < width x4"
  shows "PyConvSegNet_forward (eval_mode m0) x y =
           (if zf \<noteq> 1
            then ([Layer0, Layer1, Layer2, Layer3, Layer4, Head, Cls,
                   UpsampleLogits (target_extent (height x) zf) (target_extent (width x) zf)],
                  Inr (Logits (Tensor (batch x4) classes
                         (target_extent (height x) zf) (target_extent (width x) zf))))
            else ([Layer0, Layer1, Layer2, Layer3, Layer4, Head, Cls],
                  Inr (Logits (Tensor (batch x4) classes (height x4) (width x4)))))"
proof -
  from PyConvSegNet_init_fields [OF init] bb obtain hd a1 a2 c where
    hd: "PyConvHead_init 2048 256 = Inr hd" and
    c: "Conv2d 256 classes 1 1 0 1 1 True = Inr c" and
    m0: "m0 = \<lparr>zoom_factor = zf, criterion = crit,
               layer0 = stage0 bb, layer1 = stage1 bb, layer2 = stage2 bb,
               layer3 = stage3 bb, layer4 = stage4 bb,
               pyconvhead = hd,
               aux = [Conv a1, BatchNorm 256, ReLU, Dropout2d, Conv a2],
               cls = [Dropout2d, Conv c],
               training = True,
               merge_with_stages = None\<rparr>" and
    cl: "1 < classes"
    by auto
  let ?m = "eval_mode m0"
  let ?x5 = "Tensor (batch x4) 256 (height x4) (width x4)"
  let ?x6 = "Tensor (batch x4) classes (height x4) (width x4)"
  have f: "\<not> training ?m" "zoom_factor ?m = zf" "layer0 ?m = stage0 bb" "layer1 ?m = stage1 bb"
    "layer2 ?m = stage2 bb" "layer3 ?m = stage3 bb" "layer4 ?m = stage4 bb"
    "pyconvhead ?m = hd" "cls ?m = [Dropout2d, Conv c]"
    by (simp_all add: eval_mode_def m0)
  have h: "PyConvHead_forward False (pyconvhead ?m) x4 = Inr ?x5"
    unfolding f using PyConvHead_total [OF hd x4(1) _ x4(2,3), of False] by simp
  have "conv2d_forward c ?x5 = Inr ?x6"
    using conv1x1_forward [OF c, of ?x5] x4(2,3) cl by simp
  then have k: "sequential_forward False (cls ?m) ?x5 = Inr ?x6"
    unfolding f by simp
  have i: "interpolate ?x6 (target_extent (height x) zf, target_extent (width x) zf) =
             Inr (Tensor (batch x4) classes
                    (target_extent (height x) zf) (target_extent (width x) zf))"
    using cl x4(2,3) by (simp add: interpolate_def target_extent_pos)
  have s: "layer0 ?m False x = Inr x0" "layer1 ?m False x0 = Inr x1"
    "layer2 ?m False x1 = Inr x2" "layer3 ?m False x2 = Inr s3" "layer4 ?m False s3 = Inr x4"
    unfolding f by (rule st)+
  show ?thesis
    unfolding forward_inference [OF ok f(1) s h k] f(2) i by simp
qed

text \<open>
  Claim C1. Take a model constructed with \<^verbatim>\<open>zoom_factor = 8\<close> and put into inference
  mode, over a backbone whose five stages return on the input of shape (1, 3, 473, 473)
  and end in a feature map of batch 1 with 2048 channels and positive extent. Then
  \<^verbatim>\<open>forward\<close> returns the logits themselves, of shape (1, classes, 473, 473): the
  target extent is \<open>(473 - 1) div 8 * 8 + 1 = 473\<close>. The calls made are the five stages,
  the head, the classifier and the upsampling to 473 by 473, and no others: neither the
  criterion nor the argmax is called, whatever the criterion and the label argument are.
\<close>

theorem inference_473:
  assumes "PyConvSegNet_init build layers classes 8 crit pretrained bos net = Inr m0"
    and "build net layers pretrained bos = Inr bb"
    and "stage0 bb False (Tensor 1 3 473 473) = Inr x0" "stage1 bb False x0 = Inr x1"
      "stage2 bb False x1 = Inr x2" "stage3 bb False x2 = Inr s3" "stage4 bb False s3 = Inr x4"
    and "batch x4 = 1" "chans x4 = 2048" "0 < height x4" "0 < width x4"
  shows "PyConvSegNet_forward (eval_mode m0) (Tensor 1 3 473 473) y =
           ([Layer0, Layer1, Layer2, Layer3, Layer4, Head, Cls, UpsampleLogits 473 473],
            Inr (Logits (Tensor 1 classes 473 473)))
       \<and> target_extent 473 8 = 473"
proof -
  have ok: "(int (height (Tensor 1 3 473 473)) - 1) mod 8 = 0
              \<and> (int (width (Tensor 1 3 473 473)) - 1) mod 8 = 0"
    by simp
  have t: "target_extent 473 8 = 473"
    by (simp add: target_extent_def)
  from constructed_inference [OF assms(1,2) ok assms(3-7) assms(9-11), of y] assms(8) t
  show ?thesis by simp
qed

theorem inference_473_witness:
  "\<exists>m0. PyConvSegNet_init sample_builder 50 150 8 CrossEntropyLoss True 8 ''resnet'' = Inr m0
      \<and> PyConvSegNet_forward (eval_mode m0) (Tensor 1 3 473 473) None =
           ([Layer0, Layer1, Layer2, Layer3, Layer4, Head, Cls, UpsampleLogits 473 473],
            Inr (Logits (Tensor 1 150 473 473)))"
proof -
  from sample_init [of 8] obtain m0 where
    m: "PyConvSegNet_init sample_builder 50 150 8 CrossEntropyLoss True 8 ''resnet'' = Inr m0"
    by auto
  note t = inference_473 [where build = sample_builder and layers = 50 and classes = 150
      and crit = CrossEntropyLoss and pretrained = True and bos = 8 and net = "''resnet''"
      and ?m0.0 = m0 and bb = sample_backbone and ?x0.0 = "Tensor 1 128 119 119"
      and ?x1.0 = "Tensor 1 256 119 119" and ?x2.0 = "Tensor 1 512 60 60"
      and ?s3.0 = "Tensor 1 1024 60 60" and ?x4.0 = "Tensor 1 2048 60 60" and y = None]
  have "PyConvSegNet_forward (eval_mode m0) (Tensor 1 3 473 473) None =
           ([Layer0, Layer1, Layer2, Layer3, Layer4, Head, Cls, UpsampleLogits 473 473],
            Inr (Logits (Tensor 1 150 473 473)))
       \<and> target_extent 473 8 = 473"
    by (rule t) (simp_all add: m sample_builder_def sample_backbone_def sample_stage_def)
  then have r: "PyConvSegNet_forward (eval_mode m0) (Tensor 1 3 473 473) None =
           ([Layer0, Layer1, Layer2, Layer3, Layer4, Head, Cls, UpsampleLogits 473 473],
            Inr (Logits (Tensor 1 150 473 473)))" ..
  show ?thesis
    by (rule exI [of _ m0]) (rule conjI [OF m r])
qed

text \<open>
  Claim C9. Take a constructed model in inference mode, an input that passes the shape
  check, and a backbone whose five stages return on it, ending in a feature map with
  2048 channels and positive extent. With \<^verbatim>\<open>zoom_factor = 1\<close> no upsampling is called
  and the logits returned have the height and width of the backbone's feature map. With
  every other zoom factor the logits are upsampled, as the last call, to the target
  size \<open>(dim - 1) div 8 * zoom_factor + 1\<close> in each direction, and returned at that size.
\<close>

theorem zoom_factor_upsample:
  assumes "PyConvSegNet_init build layers classes zf crit pretrained bos net = Inr m0"
    and "build net layers pretrained bos = Inr bb"
    and "(int (height x) - 1) mod 8 = 0 \<and> (int (width x) - 1) mod 8 = 0"
    and "stage0 bb False x = Inr x0" "stage1 bb False x0 = Inr x1"
      "stage2 bb False x1 = Inr x2" "stage3 bb False x2 = Inr s3" "stage4 bb False s3 = Inr x4"
    and "chans x4 = 2048" "0 < height x4" "0 < width x4"
  shows "(zf = 1 \<longrightarrow>
            PyConvSegNet_forward (eval_mode m0) x y =
              ([Layer0, Layer1, Layer2, Layer3, Layer4, Head, Cls],
               Inr (Logits (Tensor (batch x4) classes (height x4) (width x4)))))
       \<and> (zf \<noteq> 1 \<longrightarrow>
            PyConvSegNet_forward (eval_mode m0) x y =
              ([Layer0, Layer1, Layer2, Layer3, Layer4, Head, Cls,
                UpsampleLogits ((height x - 1) div 8 * zf + 1) ((width x - 1) div 8 * zf + 1)],
               Inr (Logits (Tensor (batch x4) classes
                      ((height x - 1) div 8 * zf + 1) ((width x - 1) div 8 * zf + 1)))))"
  using constructed_inference [OF assms, of y]
  by (simp add: target_extent_def)

theorem zoom_factor_upsample_witness:
  "\<exists>m1 m8. PyConvSegNet_init sample_builder 50 150 1 CrossEntropyLoss True 8 ''resnet'' = Inr m1
      \<and> PyConvSegNet_init sample_builder 50 150 8 CrossEntropyLoss True 8 ''resnet'' = Inr m8
      \<and> PyConvSegNet_forward (eval_mode m1) (Tensor 1 3 473 473) None =
           ([Layer0, Layer1, Layer2, Layer3, Layer4, Head, Cls],
            Inr (Logits (Tensor 1 150 60 60)))
      \<and> PyConvSegNet_forward (eval_mode m8) (Tensor 1 3 473 473) None =
           ([Layer0, Layer1, Layer2, Layer3, Layer4, Head, Cls, UpsampleLogits 473 473],
            Inr (Logits (Tensor 1 150 473 473)))"
proof -
  from sample_init [of 1] obtain m1 where
    m1: "PyConvSegNet_init sample_builder 50 150 1 CrossEntropyLoss True 8 ''resnet'' = Inr m1"
    by auto
  from sample_init [of 8] obtain m8 where
    m8: "PyConvSegNet_init sample_builder 50 150 8 CrossEntropyLoss True 8 ''resnet'' = Inr m8"
    by auto
  note t = zoom_factor_upsample [where build = sample_builder and layers = 50 and classes = 150
      and crit = CrossEntropyLoss and pretrained = True and bos = 8 and net = "''resnet''"
      and bb = sample_backbone and x = "Tensor 1 3 473 473" and ?x0.0 = "Tensor 1 128 119 119"
      and ?x1.0 = "Tensor 1 256 119 119" and ?x2.0 = "Tensor 1 512 60 60"
      and ?s3.0 = "Tensor 1 1024 60 60" and ?x4.0 = "Tensor 1 2048 60 60" and y = None]
  have "(1 = (1::nat) \<longrightarrow>
            PyConvSegNet_forward (eval_mode m1) (Tensor 1 3 473 473) None =
              ([Layer0, Layer1, Layer2, Layer3, Layer4, Head, Cls],
               Inr (Logits (Tensor (batch (Tensor 1 2048 60 60)) 150
                  (height (Tensor 1 2048 60 60)) (width (Tensor 1 2048 60 60))))))
       \<and> (1 \<noteq> (1::nat) \<longrightarrow>
            PyConvSegNet_forward (eval_mode m1) (Tensor 1 3 473 473) None =
              ([Layer0, Layer1, Layer2, Layer3, Layer4, Head, Cls,
                UpsampleLogits ((height (Tensor 1 3 473 473) - 1) div 8 * 1 + 1)
                  ((width (Tensor 1 3 473 473) - 1) div 8 * 1 + 1)],
               Inr (Logits (Tensor (batch (Tensor 1 2048 60 60)) 150
                      ((height (Tensor 1 3 473 473) - 1) div 8 * 1 + 1)
                      ((width (Tensor 1 3 473 473) - 1) div 8 * 1 + 1)))))"
    by (rule t [where zf = 1 and ?m0.0 = m1, OF m1])
      (simp_all add: sample_builder_def sample_backbone_def sample_stage_def)
  then have r1: "PyConvSegNet_forward (eval_mode m1) (Tensor 1 3 473 473) None =
           ([Layer0, Layer1, Layer2, Layer3, Layer4, Head, Cls],
            Inr (Logits (Tensor 1 150 60 60)))"
    by simp
  have "(8 = (1::nat) \<longrightarrow>
            PyConvSegNet_forward (eval_mode m8) (Tensor 1 3 473 473) None =
              ([Layer0, Layer1, Layer2, Layer3, Layer4, Head, Cls],
               Inr (Logits (Tensor (batch (Tensor 1 2048 60 60)) 150
                  (height (Tensor 1 2048 60 60)) (width (Tensor 1 2048 60 60))))))
       \<and> (8 \<noteq> (1::nat) \<longrightarrow>
            PyConvSegNet_forward (eval_mode m8) (Tensor 1 3 473 473) None =
              ([Layer0, Layer1, Layer2, Layer3, Layer4, Head, Cls,
                UpsampleLogits ((height (Tensor 1 3 473 473) - 1) div 8 * 8 + 1)
                  ((width (Tensor 1 3 473 473) - 1) div 8 * 8 + 1)],
               Inr (Logits (Tensor (batch (Tensor 1 2048 60 60)) 150
                      ((height (Tensor 1 3 473 473) - 1) div 8 * 8 + 1)
                      ((width (Tensor 1 3 473 473) - 1) div 8 * 8 + 1)))))"
    by (rule t [where zf = 8 and ?m0.0 = m8, OF m8])
      (simp_all add: sample_builder_def sample_backbone_def sample_stage_def)
  then have r8: "PyConvSegNet_forward (eval_mode m8) (Tensor 1 3 473 473) None =
           ([Layer0, Layer1, Layer2, Layer3, Layer4, Head, Cls, UpsampleLogits 473 473],
            Inr (Logits (Tensor 1 150 473 473)))"
    by simp
  show ?thesis
    by (rule exI [of _ m1], rule exI [of _ m8]) (simp only: m1 m8 r1 r8 simp_thms)
qed

subsection \<open>Training mode\<close>

lemma constructed_head_cls:
  assumes init: "PyConvSegNet_init build layers classes zf crit pretrained bos net = Inr m0"
    and x4: "chans x4 = 2048" "0 < height x4" "0 < width x4"
      "\<not> (tr \<and> batch x4 * height x4 * width x4 = 1)"
  shows "PyConvHead_forward tr (pyconvhead m0) x4 =
           Inr (Tensor (batch x4) 256 (height x4) (width x4))"
    and "sequential_forward tr (cls m0) (Tensor (batch x4) 256 (height x4) (width x4)) =
           Inr (Tensor (batch x4) classes (height x4) (width x4))"
proof -
  from PyConvSegNet_init_fields [OF init] obtain bb :: backbone and hd a1 a2 c where
    hd: "PyConvHead_init 2048 256 = Inr hd" and
    c: "Conv2d 256 classes 1 1 0 1 1 True = Inr c" and
    m0: "m0 = \<lparr>zoom_factor = zf, criterion = crit,
               layer0 = stage0 bb, layer1 = stage1 bb, layer2 = stage2 bb,
               layer3 = stage3 bb, layer4 = stage4 bb,
               pyconvhead = hd,
               aux = [Conv a1, BatchNorm 256, ReLU, Dropout2d, Conv a2],
               cls = [Dropout2d, Conv c],
               training = True,
               merge_with_stages = None\<rparr>" and
    cl: "1 < classes"
    by blast
  let ?x5 = "Tensor (batch x4) 256 (height x4) (width x4)"
  show "PyConvHead_forward tr (pyconvhead m0) x4 = Inr ?x5"
    using PyConvHead_total [OF hd x4(1) _ x4(2,3,4)] by (simp add: m0)
  have "conv2d_forward c ?x5 = Inr (Tensor (batch x4) classes (height x4) (width x4))"
    using conv1x1_forward [OF c, of ?x5] x4(2,3) cl by simp
  then show "sequential_forward tr (cls m0) ?x5 =
               Inr (Tensor (batch x4) classes (height x4) (width x4))"
    by (simp add: m0)
qed

lemma constructed_aux:
  assumes init: "PyConvSegNet_init build layers classes zf crit pretrained bos net = Inr m0"
    and s3: "chans s3 = 1024" "0 < height s3" "0 < width s3"
      "\<not> (tr \<and> batch s3 * height s3 * width s3 = 1)"
  shows "sequential_forward tr (aux m0) s3 =
           Inr (Tensor (batch s3) classes (height s3) (width s3))"
proof -
  from PyConvSegNet_init_fields [OF init] obtain bb :: backbone and hd a1 a2 c where
    a1: "Conv2d 1024 256 3 1 1 1 1 False = Inr a1" and
    a2: "Conv2d 256 classes 1 1 0 1 1 True = Inr a2" and
    m0: "m0 = \<lparr>zoom_factor = zf, criterion = crit,
               layer0 = stage0 bb, layer1 = stage1 bb, layer2 = stage2 bb,
               layer3 = stage3 bb, layer4 = stage4 bb,
               pyconvhead = hd,
               aux = [Conv a1, BatchNorm 256, ReLU, Dropout2d, Conv a2],
               cls = [Dropout2d, Conv c],
               training = True,
               merge_with_stages = None\<rparr>" and
    cl: "1 < classes"
    by blast
  note r = Conv2d_Inr [OF a1]
  let ?t = "Tensor (batch s3) 256 (height s3) (width s3)"
  have "conv2d_forward a1 s3 =
          Inr (Tensor (batch s3) (out_channels a1) (height s3) (width s3))"
    by (rule conv2d_forward_same) (simp_all add: r s3)
  then have u: "conv2d_forward a1 s3 = Inr ?t"
    by (simp add: r)
  have v: "conv2d_forward a2 ?t = Inr (Tensor (batch s3) classes (height s3) (width s3))"
    using conv1x1_forward [OF a2, of ?t] s3(2,3) cl by simp
  show ?thesis
    using s3(4) by (simp add: m0 u v)
qed

lemma training_flag_unset:
  assumes "training m" "merge_with_stages m = None"
  shows "isl (snd (PyConvSegNet_forward m x y))"
proof (cases "(int (height x) - 1) mod 8 = 0 \<and> (int (width x) - 1) mod 8 = 0")
  case False
  then show ?thesis
    by (simp add: PyConvSegNet_forward_def raise_def)
next
  case True
  have r: "\<And>l :: loss. (case merge_with_stages m of None \<Rightarrow> Inl AttributeError | Some b \<Rightarrow> Inr b)
             = (Inl AttributeError :: error + bool)"
    by (simp add: assms(2))
  show ?thesis
    unfolding PyConvSegNet_forward_def Let_def
    using True assms(1)
    by (simp only: if_True if_False not_True_eq_False simp_thms r rbind_call_Inl)
      (intro isl_rbind, simp)
qed


lemma snd_rbind:
  "snd (rbind r f) = (case snd r of Inl e \<Rightarrow> Inl e | Inr a \<Rightarrow> snd (f a))"
  by (simp add: rbind_def split: sum.splits)

lemma snd_run [simp]: "snd (call ev r) = r" "snd (ret a) = Inr a" "snd (raise e) = Inl e"
  by (simp_all add: call_def ret_def raise_def)

lemma rbind_call_pair:
  "rbind (call ev (Inr a)) f = (case f a of (l, r) \<Rightarrow> (ev # l, r))"
  by (simp add: rbind_def call_def split: prod.splits)

lemma rbind_pair:
  "rbind (l, Inr a) f = (case f a of (l', r) \<Rightarrow> (l @ l', r))"
  by (simp add: rbind_def split: prod.splits)

lemma training_zoom1_unbound:
  assumes "training m" "zoom_factor m = 1" "merge_with_stages m = Some False"
  shows "isl (snd (PyConvSegNet_forward m x y))"
  using assms
  by (simp add: PyConvSegNet_forward_def Let_def snd_rbind if_distrib [of snd]
      split: sum.splits del: rbind_call_Inl rbind_call_Inr rbind_ret)

lemma training_zoom1_run:
  assumes "training m" "zoom_factor m = 1" "merge_with_stages m = Some False"
    and "(int (height x) - 1) mod 8 = 0 \<and> (int (width x) - 1) mod 8 = 0"
    and "layer0 m True x = Inr x0" "layer1 m True x0 = Inr x1" "layer2 m True x1 = Inr x2"
    and "layer3 m True x2 = Inr s3" "layer4 m True s3 = Inr x4"
    and "PyConvHead_forward True (pyconvhead m) x4 = Inr x5"
    and "sequential_forward True (cls m) x5 = Inr x6"
    and "criterion m x6 y = Inr l"
    and "sequential_forward True (aux m) s3 = Inr a"
    and "argmax1 x6 = Inr p"
  shows "PyConvSegNet_forward m x y =
           ([Layer0, Layer1, Layer2, Layer3, Layer4, Head, Cls, MainCriterion,
             ReadMergeWithStages, AuxHead, Argmax], Inl UnboundLocalError)"
  using assms
  by (simp add: PyConvSegNet_forward_def Let_def rbind_call_pair rbind_pair ret_def raise_def
      del: rbind_call_Inr)

lemma training_flag_unset_run:
  assumes "training m" "merge_with_stages m = None"
    and "(int (height x) - 1) mod 8 = 0 \<and> (int (width x) - 1) mod 8 = 0"
    and "layer0 m True x = Inr x0" "layer1 m True x0 = Inr x1" "layer2 m True x1 = Inr x2"
    and "layer3 m True x2 = Inr s3" "layer4 m True s3 = Inr x4"
    and "PyConvHead_forward True (pyconvhead m) x4 = Inr x5"
    and "sequential_forward True (cls m) x5 = Inr x6"
    and "(if zoom_factor m \<noteq> 1
          then interpolate x6 (target_extent (height x) (zoom_factor m),
                               target_extent (width x) (zoom_factor m))
          else Inr x6) = Inr x7"
    and "criterion m x7 y = Inr l"
  shows "PyConvSegNet_forward m x y =
           ([Layer0, Layer1, Layer2, Layer3, Layer4, Head, Cls]
              @ (if zoom_factor m \<noteq> 1
                 then [UpsampleLogits (target_extent (height x) (zoom_factor m))
                         (target_extent (width x) (zoom_factor m))]
                 else [])
              @ [MainCriterion, ReadMergeWithStages],
            Inl AttributeError)"
  using assms
  by (simp add: PyConvSegNet_forward_def Let_def rbind_call_pair rbind_pair ret_def raise_def
      del: rbind_call_Inr split: if_splits)

lemma constructed_attrs:
  assumes "PyConvSegNet_init build layers classes zf crit pretrained bos net = Inr m"
    and "build net layers pretrained bos = Inr bb"
  shows "merge_with_stages m = None" "training m" "zoom_factor m = zf" "criterion m = crit"
    "layer0 m = stage0 bb" "layer1 m = stage1 bb" "layer2 m = stage2 bb"
    "layer3 m = stage3 bb" "layer4 m = stage4 bb" "1 < classes"
  using PyConvSegNet_init_fields [OF assms(1)] assms(2) by auto

lemma constructed_unset:
  assumes "PyConvSegNet_init build layers classes zf crit pretrained bos net = Inr m"
  shows "merge_with_stages m = None" "training m"
  using PyConvSegNet_init_fields [OF assms] by auto

text \<open>
  Claim C2. The constructor never assigns \<^verbatim>\<open>merge_with_stages\<close>: every object it
  returns lacks the attribute, and is in training mode, the default of the runtime's
  module class. On such an object no call of \<^verbatim>\<open>forward\<close> in training mode returns a
  result, for any input and labels. And when everything before the guard of the
  auxiliary loss succeeds (the shape check passes, the backbone's five stages return a
  feature map with 2048 channels, positive extent and more than one value per channel,
  and the criterion returns the main loss) the call reaches the read of the attribute,
  which is the last entry of the call log, and raises \<^verbatim>\<open>AttributeError\<close>.
\<close>

theorem merge_with_stages_never_set:
  assumes init: "PyConvSegNet_init build layers classes zf crit pretrained bos net = Inr m"
  shows "merge_with_stages m = None \<and> training m
       \<and> (\<forall>x y. isl (snd (PyConvSegNet_forward m x y)))
       \<and> (\<forall>x y (bb :: backbone) x0 x1 x2 s3 x4 l.
            build net layers pretrained bos = Inr bb
          \<and> (int (height x) - 1) mod 8 = 0 \<and> (int (width x) - 1) mod 8 = 0
          \<and> stage0 bb True x = Inr x0 \<and> stage1 bb True x0 = Inr x1
          \<and> stage2 bb True x1 = Inr x2 \<and> stage3 bb True x2 = Inr s3
          \<and> stage4 bb True s3 = Inr x4
          \<and> chans x4 = 2048 \<and> 0 < height x4 \<and> 0 < width x4
          \<and> batch x4 * height x4 * width x4 \<noteq> 1
          \<and> crit (Tensor (batch x4) classes
                    (if zf \<noteq> 1 then target_extent (height x) zf else height x4)
                    (if zf \<noteq> 1 then target_extent (width x) zf else width x4)) y = Inr l
          \<longrightarrow> PyConvSegNet_forward m x y =
                ([Layer0, Layer1, Layer2, Layer3, Layer4, Head, Cls]
                   @ (if zf \<noteq> 1
                      then [UpsampleLogits (target_extent (height x) zf)
                              (target_extent (width x) zf)]
                      else [])
                   @ [MainCriterion, ReadMergeWithStages],
                 Inl AttributeError))"
proof (intro conjI allI impI)
  show "merge_with_stages m = None" "training m"
    by (rule constructed_unset [OF init])+
next
  fix x y
  show "isl (snd (PyConvSegNet_forward m x y))"
    by (rule training_flag_unset [OF constructed_unset(2,1) [OF init]])
next
  fix x y and bb :: backbone and x0 x1 x2 s3 x4 l
  assume h: "build net layers pretrained bos = Inr bb
          \<and> (int (height x) - 1) mod 8 = 0 \<and> (int (width x) - 1) mod 8 = 0
          \<and> stage0 bb True x = Inr x0 \<and> stage1 bb True x0 = Inr x1
          \<and> stage2 bb True x1 = Inr x2 \<and> stage3 bb True x2 = Inr s3
          \<and> stage4 bb True s3 = Inr x4
          \<and> chans x4 = 2048 \<and> 0 < height x4 \<and> 0 < width x4
          \<and> batch x4 * height x4 * width x4 \<noteq> 1
          \<and> crit (Tensor (batch x4) classes
                    (if zf \<noteq> 1 then target_extent (height x) zf else height x4)
                    (if zf \<noteq> 1 then target_extent (width x) zf else width x4)) y = Inr l"
  then have bb: "build net layers pretrained bos = Inr bb"
    by blast
  note a = constructed_attrs [OF init bb]
  let ?x5 = "Tensor (batch x4) 256 (height x4) (width x4)"
  let ?x6 = "Tensor (batch x4) classes (height x4) (width x4)"
  let ?x7 = "Tensor (batch x4) classes
               (if zf \<noteq> 1 then target_extent (height x) zf else height x4)
               (if zf \<noteq> 1 then target_extent (width x) zf else width x4)"
  from h have x4: "chans x4 = 2048" "0 < height x4" "0 < width x4"
      "\<not> (True \<and> batch x4 * height x4 * width x4 = 1)"
    by simp_all
  note hc = constructed_head_cls [OF init x4]
  have i: "(if zoom_factor m \<noteq> 1
          then interpolate ?x6 (target_extent (height x) (zoom_factor m),
                               target_extent (width x) (zoom_factor m))
          else Inr ?x6) = Inr ?x7"
    using a(10) x4(2,3) by (simp add: a(3) interpolate_def target_extent_def)
  have "PyConvSegNet_forward m x y =
           ([Layer0, Layer1, Layer2, Layer3, Layer4, Head, Cls]
              @ (if zoom_factor m \<noteq> 1
                 then [UpsampleLogits (target_extent (height x) (zoom_factor m))
                         (target_extent (width x) (zoom_factor m))]
                 else [])
              @ [MainCriterion, ReadMergeWithStages],
            Inl AttributeError)"
  proof (rule training_flag_unset_run [OF a(2,1) _ _ _ _ _ _ hc i])
    show "(int (height x) - 1) mod 8 = 0 \<and> (int (width x) - 1) mod 8 = 0"
      using h by blast
    show "layer0 m True x = Inr x0" "layer1 m True x0 = Inr x1" "layer2 m True x1 = Inr x2"
      "layer3 m True x2 = Inr s3" "layer4 m True s3 = Inr x4"
      using h by (simp_all add: a)
    show "criterion m ?x7 y = Inr l"
      using h by (simp add: a(4))
  qed
  then show "PyConvSegNet_forward m x y =
                ([Layer0, Layer1, Layer2, Layer3, Layer4, Head, Cls]
                   @ (if zf \<noteq> 1
                      then [UpsampleLogits (target_extent (height x) zf)
                              (target_extent (width x) zf)]
                      else [])
                   @ [MainCriterion, ReadMergeWithStages],
                 Inl AttributeError)"
    by (simp only: a(3))
qed

theorem merge_with_stages_never_set_witness:
  "\<exists>m. PyConvSegNet_init sample_builder 50 150 8 CrossEntropyLoss True 8 ''resnet'' = Inr m
      \<and> merge_with_stages m = None \<and> training m
      \<and> PyConvSegNet_forward m (Tensor 1 3 473 473) (Some (Labels 1 473 473)) =
           ([Layer0, Layer1, Layer2, Layer3, Layer4, Head, Cls, UpsampleLogits 473 473,
             MainCriterion, ReadMergeWithStages],
            Inl AttributeError)"
proof -
  from sample_init [of 8] obtain m where
    m: "PyConvSegNet_init sample_builder 50 150 8 CrossEntropyLoss True 8 ''resnet'' = Inr m"
    by auto
  note t = merge_with_stages_never_set [OF m]
  from t have u: "merge_with_stages m = None" "training m"
    by blast+
  note q = t [THEN conjunct2, THEN conjunct2, THEN conjunct2, rule_format,
      where x = "Tensor 1 3 473 473" and y = "Some (Labels 1 473 473)"
        and bb = sample_backbone
        and ?x0.0 = "Tensor 1 128 119 119" and ?x1.0 = "Tensor 1 256 119 119"
        and ?x2.0 = "Tensor 1 512 60 60" and ?s3.0 = "Tensor 1 1024 60 60"
        and ?x4.0 = "Tensor 1 2048 60 60"
        and l = "LossOf (Tensor 1 150 473 473) (Labels 1 473 473)"]
  from q have r: "PyConvSegNet_forward m (Tensor 1 3 473 473) (Some (Labels 1 473 473)) =
           ([Layer0, Layer1, Layer2, Layer3, Layer4, Head, Cls, UpsampleLogits 473 473,
             MainCriterion, ReadMergeWithStages],
            Inl AttributeError)"
    by (simp add: sample_builder_def sample_backbone_def sample_stage_def target_extent_def)
  show ?thesis
    by (rule exI [of _ m]) (simp only: m u r simp_thms)
qed

text \<open>
  Claim C10. Take any model object in training mode with \<^verbatim>\<open>zoom_factor = 1\<close> whose
  \<^verbatim>\<open>merge_with_stages\<close> attribute was assigned a false value. No call of \<^verbatim>\<open>forward\<close>
  returns a result. When every step succeeds (the shape check, the five stages, the
  head, the classifier, the criterion on the main logits, the auxiliary head and the
  argmax), the auxiliary branch is taken, the auxiliary head is called, neither the
  auxiliary upsampling nor the auxiliary criterion is, and the \<^verbatim>\<open>return\<close> statement
  raises \<^verbatim>\<open>UnboundLocalError\<close> for \<^verbatim>\<open>aux_loss\<close> after the argmax has been computed.
\<close>

theorem aux_loss_unbound:
  assumes "training m" "zoom_factor m = 1" "merge_with_stages m = Some False"
  shows "isl (snd (PyConvSegNet_forward m x y))
       \<and> (\<forall>x0 x1 x2 s3 x4 x5 x6 l a p.
            (int (height x) - 1) mod 8 = 0 \<and> (int (width x) - 1) mod 8 = 0
          \<and> layer0 m True x = Inr x0 \<and> layer1 m True x0 = Inr x1
          \<and> layer2 m True x1 = Inr x2 \<and> layer3 m True x2 = Inr s3
          \<and> layer4 m True s3 = Inr x4
          \<and> PyConvHead_forward True (pyconvhead m) x4 = Inr x5
          \<and> sequential_forward True (cls m) x5 = Inr x6
          \<and> criterion m x6 y = Inr l
          \<and> sequential_forward True (aux m) s3 = Inr a
          \<and> argmax1 x6 = Inr p
          \<longrightarrow> PyConvSegNet_forward m x y =
                ([Layer0, Layer1, Layer2, Layer3, Layer4, Head, Cls, MainCriterion,
                  ReadMergeWithStages, AuxHead, Argmax],
                 Inl UnboundLocalError))"
proof (intro conjI allI impI)
  show "isl (snd (PyConvSegNet_forward m x y))"
    by (rule training_zoom1_unbound [OF assms])
next
  fix x0 x1 x2 s3 x4 x5 x6 l a p
  assume h: "(int (height x) - 1) mod 8 = 0 \<and> (int (width x) - 1) mod 8 = 0
          \<and> layer0 m True x = Inr x0 \<and> layer1 m True x0 = Inr x1
          \<and> layer2 m True x1 = Inr x2 \<and> layer3 m True x2 = Inr s3
          \<and> layer4 m True s3 = Inr x4
          \<and> PyConvHead_forward True (pyconvhead m) x4 = Inr x5
          \<and> sequential_forward True (cls m) x5 = Inr x6
          \<and> criterion m x6 y = Inr l
          \<and> sequential_forward True (aux m) s3 = Inr a
          \<and> argmax1 x6 = Inr p"
  show "PyConvSegNet_forward m x y =
                ([Layer0, Layer1, Layer2, Layer3, Layer4, Head, Cls, MainCriterion,
                  ReadMergeWithStages, AuxHead, Argmax],
                 Inl UnboundLocalError)"
    by (rule training_zoom1_run [OF assms, of x x0 x1 x2 s3 x4 x5 x6 y l a p])
      (use h in blast)+
qed

theorem aux_loss_unbound_witness:
  "\<exists>m1. PyConvSegNet_init sample_builder 50 150 1 CrossEntropyLoss True 8 ''resnet'' = Inr m1
      \<and> PyConvSegNet_forward (m1\<lparr>merge_with_stages := Some False\<rparr>)
           (Tensor 1 3 473 473) (Some (Labels 1 60 60)) =
           ([Layer0, Layer1, Layer2, Layer3, Layer4, Head, Cls, MainCriterion,
             ReadMergeWithStages, AuxHead, Argmax],
            Inl UnboundLocalError)"
proof -
  from sample_init [of 1] obtain m1 where
    m1: "PyConvSegNet_init sample_builder 50 150 1 CrossEntropyLoss True 8 ''resnet'' = Inr m1"
    by auto
  have b: "sample_builder ''resnet'' 50 True 8 = Inr sample_backbone"
    by (simp add: sample_builder_def)
  note a = constructed_attrs [where build = sample_builder and bb = sample_backbone, OF m1 b]
  let ?m = "m1\<lparr>merge_with_stages := Some False\<rparr>"
  have pre: "training ?m" "zoom_factor ?m = 1" "merge_with_stages ?m = Some False"
    using a(2,3) by simp_all
  have x4: "chans (Tensor 1 2048 60 60) = 2048" "0 < height (Tensor 1 2048 60 60)"
    "0 < width (Tensor 1 2048 60 60)"
    "\<not> (True \<and> batch (Tensor 1 2048 60 60) * height (Tensor 1 2048 60 60)
            * width (Tensor 1 2048 60 60) = 1)"
    by simp_all
  have s3: "chans (Tensor 1 1024 60 60) = 1024" "0 < height (Tensor 1 1024 60 60)"
    "0 < width (Tensor 1 1024 60 60)"
    "\<not> (True \<and> batch (Tensor 1 1024 60 60) * height (Tensor 1 1024 60 60)
            * width (Tensor 1 1024 60 60) = 1)"
    by simp_all
  note hc = constructed_head_cls [where build = sample_builder, OF m1 x4]
  note ax = constructed_aux [where build = sample_builder, OF m1 s3]
  note q = aux_loss_unbound [OF pre, THEN conjunct2, rule_format,
      where x = "Tensor 1 3 473 473" and y = "Some (Labels 1 60 60)"
        and ?x0.0 = "Tensor 1 128 119 119" and ?x1.0 = "Tensor 1 256 119 119"
        and ?x2.0 = "Tensor 1 512 60 60" and ?s3.0 = "Tensor 1 1024 60 60"
        and ?x4.0 = "Tensor 1 2048 60 60" and ?x5.0 = "Tensor 1 256 60 60"
        and ?x6.0 = "Tensor 1 150 60 60"
        and l = "LossOf (Tensor 1 150 60 60) (Labels 1 60 60)"
        and a = "Tensor 1 150 60 60" and p = "Labels 1 60 60"]
  from q hc ax have r: "PyConvSegNet_forward ?m (Tensor 1 3 473 473) (Some (Labels 1 60 60)) =
           ([Layer0, Layer1, Layer2, Layer3, Layer4, Head, Cls, MainCriterion,
             ReadMergeWithStages, AuxHead, Argmax],
            Inl UnboundLocalError)"
    by (simp add: a sample_backbone_def sample_stage_def argmax1_def)
  show ?thesis
    by (rule exI [of _ m1]) (simp only: m1 r simp_thms)
qed

end
